theory Spec2Isabelle
  imports Main "HOL-Library.AList" "HOL-Library.Sublist"
begin

text \<open>
  Availability retrieval for a restaurant page: the time codec \<open>offsetToTime\<close>, the slot
  decoder \<open>extractSlots\<close>, the offline reader \<open>runHarMode\<close> of a recorded log and the
  live pipeline \<open>runLiveMode\<close> (capture, mutate, replay, decode), as functions of HOL.
  Values that \<open>JSON.parse\<close> returns are taken at the type the code declares for them:
  records for a response, an untyped value for a request body. \<open>JSON.parse\<close>,
  \<open>JSON.stringify\<close>, the browser and the network are parameters.
\<close>

section \<open>Run-time values\<close>

text \<open>
  A JavaScript number is a double. The program's arithmetic is on minutes, day offsets
  and party sizes, so the model holds the doubles whose value is an integer, the two
  infinities and \<open>NaN\<close>; fractions have no value in the model, and the sign of zero is not
  kept. \<open>Num n\<close> stands for the double of value \<open>n\<close>.
\<close>

datatype jsnum = Num int | NaN | PosInf | NegInf

text \<open>
  Rounding to the nearest double, ties to the even significand. \<open>ulp a\<close> is the spacing
  of the doubles around a magnitude \<open>a\<close>: 1 below \<open>2 ^ 53\<close>, doubling with every further
  bit. A result of magnitude \<open>2 ^ 1024\<close> or more is an infinity.
\<close>

function ulp :: "int \<Rightarrow> int" where
  "ulp a = (if a < 2 ^ 53 then 1 else 2 * ulp (a div 2))"
  by pat_completeness auto
termination
  by (relation "measure nat") auto

definition round_double :: "int \<Rightarrow> int" where
  "round_double x =
     (let a = \<bar>x\<bar>; q = ulp a; m = a div q; r = a mod q;
          m' = (if 2 * r < q then m else if q < 2 * r then m + 1 else if even m then m else m + 1)
      in sgn x * (m' * q))"

definition to_double :: "int \<Rightarrow> jsnum" where
  "to_double x =
     (let y = round_double x
      in if 2 ^ 1024 \<le> \<bar>y\<bar> then (if 0 < x then PosInf else NegInf) else Num y)"

fun num_add :: "jsnum \<Rightarrow> jsnum \<Rightarrow> jsnum" where
  "num_add (Num a) (Num b) = to_double (a + b)"
| "num_add NaN _ = NaN"
| "num_add _ NaN = NaN"
| "num_add PosInf NegInf = NaN"
| "num_add NegInf PosInf = NaN"
| "num_add PosInf _ = PosInf"
| "num_add _ PosInf = PosInf"
| "num_add NegInf _ = NegInf"
| "num_add _ NegInf = NegInf"

fun num_mul :: "jsnum \<Rightarrow> jsnum \<Rightarrow> jsnum" where
  "num_mul (Num a) (Num b) = to_double (a * b)"
| "num_mul NaN _ = NaN"
| "num_mul _ NaN = NaN"
| "num_mul PosInf (Num b) = (if b = 0 then NaN else if 0 < b then PosInf else NegInf)"
| "num_mul NegInf (Num b) = (if b = 0 then NaN else if 0 < b then NegInf else PosInf)"
| "num_mul (Num a) PosInf = (if a = 0 then NaN else if 0 < a then PosInf else NegInf)"
| "num_mul (Num a) NegInf = (if a = 0 then NaN else if 0 < a then NegInf else PosInf)"
| "num_mul PosInf PosInf = PosInf"
| "num_mul NegInf NegInf = PosInf"
| "num_mul PosInf NegInf = NegInf"
| "num_mul NegInf PosInf = NegInf"

text \<open>
  The operator \<open>%\<close> truncates towards zero: the result has the sign of the dividend and is
  exact. A zero divisor and an infinite dividend give \<open>NaN\<close>; an infinite divisor leaves a
  finite dividend as it is.
\<close>

fun num_rem :: "jsnum \<Rightarrow> jsnum \<Rightarrow> jsnum" where
  "num_rem (Num a) (Num b) = (if b = 0 then NaN else Num (sgn a * (\<bar>a\<bar> mod \<bar>b\<bar>)))"
| "num_rem (Num a) PosInf = Num a"
| "num_rem (Num a) NegInf = Num a"
| "num_rem _ _ = NaN"

text \<open>
  \<open>Math.floor(x / 60)\<close>: the quotient is rounded to a double and then floored. For an
  integer of magnitude up to \<open>2 ^ 53\<close> the rounded quotient has the floor of the exact
  one; \<open>offsetToTime\<close> applies it to a remainder by 1440.
\<close>

fun floor_div60 :: "jsnum \<Rightarrow> jsnum" where
  "floor_div60 (Num a) = Num (a div 60)"
| "floor_div60 NaN = NaN"
| "floor_div60 PosInf = PosInf"
| "floor_div60 NegInf = NegInf"

subsection \<open>Strings and numbers\<close>

definition is_digit :: "char \<Rightarrow> bool" where
  "is_digit c = (48 \<le> (of_char c :: nat) \<and> (of_char c :: nat) \<le> 57)"

definition digit_val :: "char \<Rightarrow> nat" where
  "digit_val c = of_char c - 48"

definition digit_char :: "nat \<Rightarrow> char" where
  "digit_char n = char_of (48 + n)"

definition dec_value :: "string \<Rightarrow> nat" where
  "dec_value s = foldl (\<lambda>acc c. 10 * acc + digit_val c) 0 s"

text \<open>
  \<open>Number(s)\<close> on a string: the empty string is 0, a sequence of decimal digits is the
  double nearest to its value, and a string that is no numeric literal is \<open>NaN\<close>. Literals written with a sign,
  surrounding white space, a fraction, an exponent or a radix prefix are outside the
  modelled fragment; the definition sends them to \<open>NaN\<close> as well, and no statement
  below is about the value of such a string.
\<close>

definition Number_str :: "string \<Rightarrow> jsnum" where
  "Number_str s =
     (if s = [] then Num 0
      else if list_all is_digit s then to_double (int (dec_value s))
      else NaN)"

function dec_digits :: "nat \<Rightarrow> string" where
  "dec_digits n = (if n < 10 then [digit_char n] else dec_digits (n div 10) @ [digit_char (n mod 10)])"
  by pat_completeness auto
termination
  by (relation "measure id") auto

text \<open>
  \<open>String(n)\<close> on a number: the decimal digits of an integer of magnitude below
  \<open>10 ^ 21\<close> (from there on \<open>String\<close> writes an exponent, which the model does not).
\<close>

fun String_num :: "jsnum \<Rightarrow> string" where
  "String_num (Num n) = (if n < 0 then CHR ''-'' # dec_digits (nat (- n)) else dec_digits (nat n))"
| "String_num NaN = ''NaN''"
| "String_num PosInf = ''Infinity''"
| "String_num NegInf = ''-Infinity''"

text \<open>\<open>s.padStart(n, c)\<close> with a one-character filler.\<close>

definition padStart :: "string \<Rightarrow> nat \<Rightarrow> char \<Rightarrow> string" where
  "padStart s n c = replicate (n - length s) c @ s"

text \<open>\<open>s.split(sep)\<close> with a one-character separator: never the empty array.\<close>

fun split_on :: "char \<Rightarrow> string \<Rightarrow> string list" where
  "split_on sep [] = [[]]"
| "split_on sep (c # cs) =
     (if c = sep then [] # split_on sep cs
      else (case split_on sep cs of
              [] \<Rightarrow> [[c]]
            | w # ws \<Rightarrow> (c # w) # ws))"

section \<open>TimeCodec: \<open>offsetToTime\<close>\<close>

text \<open>
  The array destructuring \<open>[h, m] = baseTime.split(':').map(Number)\<close> reads the first
  two elements; a missing element is \<open>undefined\<close>, which arithmetic turns into \<open>NaN\<close>.
\<close>

definition offsetToTime :: "string \<Rightarrow> int \<Rightarrow> string" where
  "offsetToTime baseTime timeOffsetMinutes =
     (let parts = map Number_str (split_on CHR '':'' baseTime);
          h = (case parts of [] \<Rightarrow> NaN | x # _ \<Rightarrow> x);
          m = (case parts of _ # y # _ \<Rightarrow> y | _ \<Rightarrow> NaN);
          totalMinutes = num_add (num_add (num_mul h (Num 60)) m) (Num timeOffsetMinutes);
          wrapped = num_rem (num_add (num_rem totalMinutes (Num (24 * 60))) (Num (24 * 60)))
                      (Num (24 * 60));
          hh = floor_div60 wrapped;
          mm = num_rem wrapped (Num 60)
      in padStart (String_num hh) 2 CHR ''0'' @ '':'' @ padStart (String_num mm) 2 CHR ''0'')"

text \<open>
  The vocabulary of the specification: a well-formed \<open>HH:MM\<close> string, its hour and
  minute, the truncating remainder, and the zero-padded rendering of a minute of the day.
\<close>

definition wf_time :: "string \<Rightarrow> bool" where
  "wf_time s =
     (length s = 5 \<and> is_digit (s ! 0) \<and> is_digit (s ! 1) \<and> s ! 2 = CHR '':'' \<and>
      is_digit (s ! 3) \<and> is_digit (s ! 4) \<and>
      dec_value (take 2 s) < 24 \<and> dec_value (drop 3 s) < 60)"

definition baseHour :: "string \<Rightarrow> int" where
  "baseHour s = int (dec_value (take 2 s))"

definition baseMinute :: "string \<Rightarrow> int" where
  "baseMinute s = int (dec_value (drop 3 s))"

definition trunc_rem :: "int \<Rightarrow> int \<Rightarrow> int" where
  "trunc_rem a b = sgn a * (\<bar>a\<bar> mod \<bar>b\<bar>)"

definition two_digits :: "nat \<Rightarrow> string" where
  "two_digits n = [digit_char (n div 10), digit_char (n mod 10)]"

definition format_minutes :: "int \<Rightarrow> string" where
  "format_minutes w = two_digits (nat w div 60) @ '':'' @ two_digits (nat w mod 60)"

section \<open>SlotDecoder: \<open>extractSlots\<close>\<close>

text \<open>
  The response interfaces, field by field; an optional field is an \<open>option\<close>. The
  interface declares \<open>slots\<close> as required, but \<open>extractSlots\<close> guards against its
  absence, so the model admits a day without \<open>slots\<close>. The field \<open>__typename\<close> is
  written \<open>typename\<close>, and the \<open>type\<close> of a decoded slot is written \<open>type'\<close>.
\<close>

record TopExperience =
  name :: "string option"

record AvailabilitySlot =
  isAvailable :: "bool option"
  timeOffsetMinutes :: "int option"
  type :: "string option"
  typename :: "string option"

record AvailabilityDay =
  dayOffset :: int
  topExperience :: "TopExperience option"
  slots :: "AvailabilitySlot list option"

record RestaurantAvailability =
  restaurantId :: "int option"
  availabilityDays :: "AvailabilityDay list option"

record ResponseData =
  availability :: "RestaurantAvailability list option"

record AvailabilityResponse =
  data :: "ResponseData option"

record DecodedSlot =
  time :: string
  type' :: string

text \<open>\<open>res.data?.availability?.[0]?.availabilityDays ?? []\<close>\<close>

definition days_of :: "AvailabilityResponse \<Rightarrow> AvailabilityDay list" where
  "days_of res =
     (case data res of
        None \<Rightarrow> []
      | Some d \<Rightarrow>
          (case availability d of
             None \<Rightarrow> []
           | Some [] \<Rightarrow> []
           | Some (a # _) \<Rightarrow>
               (case availabilityDays a of None \<Rightarrow> [] | Some ds \<Rightarrow> ds)))"

text \<open>
  \<open>days.find((d) => d.dayOffset === 0) ?? days[0]\<close>: \<open>find\<close> returns the first match,
  and \<open>days[0]\<close> of an empty array is \<open>undefined\<close>.
\<close>

definition select_day0 :: "AvailabilityDay list \<Rightarrow> AvailabilityDay option" where
  "select_day0 days =
     (case find (\<lambda>d. dayOffset d = 0) days of
        Some d \<Rightarrow> Some d
      | None \<Rightarrow> (case days of [] \<Rightarrow> None | d # _ \<Rightarrow> Some d))"

text \<open>The \<open>for\<close> loop over \<open>day0.slots\<close>, with the array \<open>slots\<close> it pushes to.\<close>

fun push_slots :: "string \<Rightarrow> AvailabilitySlot list \<Rightarrow> DecodedSlot list \<Rightarrow> DecodedSlot list" where
  "push_slots baseTime [] acc = acc"
| "push_slots baseTime (slot # rest) acc =
     push_slots baseTime rest
       (if isAvailable slot = Some True
        then (case timeOffsetMinutes slot of
                None \<Rightarrow> acc
              | Some n \<Rightarrow>
                  acc @ [\<lparr>time = offsetToTime baseTime n,
                          type' = (case type slot of None \<Rightarrow> ''Standard'' | Some t \<Rightarrow> t)\<rparr>])
        else acc)"

text \<open>
  The parameter \<open>requestedDate\<close> is declared a string and never read; its type is left
  open, so that a caller passing an unchecked value is covered as well.
\<close>

definition extractSlots :: "AvailabilityResponse \<Rightarrow> string \<Rightarrow> 'd \<Rightarrow> DecodedSlot list" where
  "extractSlots res baseTime requestedDate =
     (case select_day0 (days_of res) of
        None \<Rightarrow> []
      | Some day0 \<Rightarrow>
          (case slots day0 of
             None \<Rightarrow> []
           | Some ss \<Rightarrow> push_slots baseTime ss []))"

text \<open>
  The filtering rule in the words of the specification: a slot is included when it is
  available and carries a numeric offset, and an included slot decodes to its wrapped
  time and its type, \<open>Standard\<close> when the type is absent.
\<close>

definition slot_included :: "AvailabilitySlot \<Rightarrow> bool" where
  "slot_included s = (isAvailable s = Some True \<and> timeOffsetMinutes s \<noteq> None)"

definition decode_slot :: "string \<Rightarrow> AvailabilitySlot \<Rightarrow> DecodedSlot" where
  "decode_slot baseTime s =
     \<lparr>time = offsetToTime baseTime (the (timeOffsetMinutes s)),
      type' = (case type s of None \<Rightarrow> ''Standard'' | Some t \<Rightarrow> t)\<rparr>"

section \<open>Values read from JSON\<close>

text \<open>
  A request body is read through \<open>JSON.parse\<close> as an untyped value. An object is the list
  of its properties in insertion order, each key once; \<open>map_of\<close> reads a property, and an
  absent property is \<open>undefined\<close>, the \<open>None\<close> of an \<open>option\<close>. Keys that are array
  indices, which an engine enumerates before the others, are not treated apart.
\<close>

datatype jsval =
    JNull
  | JBool bool
  | JNum jsnum
  | JStr string
  | JArr "jsval list"
  | JObj "(string \<times> jsval) list"

datatype js_error = SyntaxError | TypeError | Timeout | OtherError string

fun truthy_num :: "jsnum \<Rightarrow> bool" where
  "truthy_num (Num n) = (n \<noteq> 0)"
| "truthy_num NaN = False"
| "truthy_num PosInf = True"
| "truthy_num NegInf = True"

fun truthy :: "jsval \<Rightarrow> bool" where
  "truthy JNull = False"
| "truthy (JBool b) = b"
| "truthy (JNum n) = truthy_num n"
| "truthy (JStr s) = (s \<noteq> [])"
| "truthy (JArr _) = True"
| "truthy (JObj _) = True"

text \<open>
  \<open>v.key\<close> for a key that names no built-in member (\<open>variables\<close>, \<open>time\<close>, \<open>date\<close>):
  reading a property of \<open>null\<close> raises, an object gives its property, and any other
  value gives \<open>undefined\<close>.
\<close>

fun get_prop :: "jsval \<Rightarrow> string \<Rightarrow> js_error + jsval option" where
  "get_prop JNull key = Inl TypeError"
| "get_prop (JObj props) key = Inr (map_of props key)"
| "get_prop _ key = Inr None"

text \<open>\<open>v?.key\<close> on a value that may be \<open>undefined\<close>: a nullish value gives \<open>undefined\<close>.\<close>

fun get_opt :: "jsval option \<Rightarrow> string \<Rightarrow> jsval option" where
  "get_opt None key = None"
| "get_opt (Some JNull) key = None"
| "get_opt (Some (JObj props)) key = map_of props key"
| "get_opt (Some _) key = None"

text \<open>\<open>s.includes(pattern)\<close>: the pattern occurs in \<open>s\<close> as a contiguous run.\<close>

fun str_includes :: "string \<Rightarrow> string \<Rightarrow> bool" where
  "str_includes [] pat = (pat = [])"
| "str_includes (c # cs) pat = (prefix pat (c # cs) \<or> str_includes cs pat)"

text \<open>
  An object literal \<open>{...x, k1: v1, ..., kn: vn}\<close>: the own enumerable properties of
  \<open>x\<close> are copied first (none for a nullish value, a number or a boolean; the indices
  for an array or a string), then each listed property is defined in order. Defining a
  key that exists replaces its value in place; a new key is appended.
\<close>

fun spread :: "jsval option \<Rightarrow> (string \<times> jsval) list" where
  "spread (Some (JObj props)) = props"
| "spread (Some (JArr xs)) = zip (map dec_digits [0..<length xs]) xs"
| "spread (Some (JStr cs)) = zip (map dec_digits [0..<length cs]) (map (\<lambda>c. JStr [c]) cs)"
| "spread _ = []"

definition define_props :: "(string \<times> 'v) list \<Rightarrow> (string \<times> 'v) list \<Rightarrow> (string \<times> 'v) list" where
  "define_props obj props = foldl (\<lambda>acc (k, v). AList.update k v acc) obj props"

text \<open>
  A call of \<open>extractSlots\<close> with a base time that was read from an untyped value. The
  declared type is not checked at run time: a value that is no string reaches
  \<open>baseTime.split\<close> at the first slot that is decoded, which raises \<open>TypeError\<close>; when no
  slot is decoded the call returns the empty list.
\<close>

definition extractSlots_unchecked ::
    "AvailabilityResponse \<Rightarrow> jsval \<Rightarrow> 'd \<Rightarrow> js_error + DecodedSlot list" where
  "extractSlots_unchecked res baseTime requestedDate =
     (case baseTime of
        JStr s \<Rightarrow> Inr (extractSlots res s requestedDate)
      | _ \<Rightarrow> (if extractSlots res [] requestedDate = [] then Inr [] else Inl TypeError))"

section \<open>HarSource: \<open>runHarMode\<close>\<close>

text \<open>
  The entries of the recorded log, as the filter's parameter type declares them. The
  objects \<open>postData\<close> and \<open>content\<close> have the same shape, one optional \<open>text\<close>,
  written \<open>text'\<close>; the \<open>method\<close> of a request is written \<open>http_method\<close>.
\<close>

record HarText = text' :: "string option"

record HarRequest =
  url :: "string option"
  http_method :: "string option"
  postData :: "HarText option"

record HarResponse =
  content :: "HarText option"

record HarEntry =
  request :: "HarRequest option"
  response :: "HarResponse option"

text \<open>\<open>e.request?.postData?.text\<close> and \<open>e.response?.content?.text\<close>\<close>

definition request_text :: "HarEntry \<Rightarrow> string option" where
  "request_text e =
     (case request e of
        None \<Rightarrow> None
      | Some r \<Rightarrow> (case postData r of None \<Rightarrow> None | Some p \<Rightarrow> text' p))"

definition response_text :: "HarEntry \<Rightarrow> string option" where
  "response_text e =
     (case response e of
        None \<Rightarrow> None
      | Some r \<Rightarrow> (case content r of None \<Rightarrow> None | Some c \<Rightarrow> text' c))"

text \<open>A string that may be \<open>undefined\<close> is truthy when it is present and not empty.\<close>

fun truthy_text :: "string option \<Rightarrow> bool" where
  "truthy_text None = False"
| "truthy_text (Some s) = (s \<noteq> [])"

text \<open>
  The template literals of the two filters. \<open>quoted s\<close> is \<open>s\<close> between two double
  quote characters. The party size is written by \<open>String_num\<close>, so the pattern is the
  one of the source for a party size of magnitude below \<open>10 ^ 21\<close>.
\<close>

definition quoted :: "string \<Rightarrow> string" where
  "quoted s = [CHR 0x22] @ s @ [CHR 0x22]"

definition date_pattern :: "string \<Rightarrow> string" where
  "date_pattern filterDate = quoted ''date'' @ '':'' @ quoted filterDate"

definition party_pattern :: "jsnum \<Rightarrow> string" where
  "party_pattern filterParty = quoted ''partySize'' @ '':'' @ String_num filterParty"

fun num_positive :: "jsnum \<Rightarrow> bool" where
  "num_positive (Num n) = (0 < n)"
| "num_positive NaN = False"
| "num_positive PosInf = True"
| "num_positive NegInf = False"

text \<open>The predicate of \<open>entries.filter\<close>, one early \<open>return false\<close> after the other.\<close>

definition entry_matches :: "string \<Rightarrow> jsnum \<Rightarrow> HarEntry \<Rightarrow> bool" where
  "entry_matches filterDate filterParty e =
     (case request e of
        None \<Rightarrow> False
      | Some r \<Rightarrow>
          if http_method r \<noteq> Some ''POST'' then False
          else if \<not> (case url r of None \<Rightarrow> False | Some u \<Rightarrow> str_includes u ''RestaurantsAvailability'')
            then False
          else if \<not> truthy_text (response_text e) then False
          else if filterDate \<noteq> [] \<and> truthy_text (request_text e) \<and>
                  \<not> str_includes (the (request_text e)) (date_pattern filterDate)
            then False
          else if num_positive filterParty \<and> truthy_text (request_text e) \<and>
                  \<not> str_includes (the (request_text e)) (party_pattern filterParty)
            then False
          else True)"

text \<open>
  The first \<open>try\<close> block of the loop body: the new value of the variable \<open>baseTime\<close>,
  which is declared before the loop. Every exception in the block is swallowed and
  leaves the variable as it is.
\<close>

definition next_baseTime :: "(string \<Rightarrow> jsval option) \<Rightarrow> HarEntry \<Rightarrow> jsval \<Rightarrow> jsval" where
  "next_baseTime JSON_parse entry baseTime =
     (case request_text entry of
        None \<Rightarrow> baseTime
      | Some body \<Rightarrow>
          if body = [] then baseTime
          else (case JSON_parse body of
                  None \<Rightarrow> baseTime
                | Some parsed \<Rightarrow>
                    (case get_prop parsed ''variables'' of
                       Inl _ \<Rightarrow> baseTime
                     | Inr vars \<Rightarrow>
                         (case get_opt vars ''time'' of
                            None \<Rightarrow> baseTime
                          | Some t \<Rightarrow> if truthy t then t else baseTime))))"

text \<open>
  \<open>filterDate || (() => { ... })()\<close>: the date the entry was requested for, the empty
  string when the body is absent, unparsable or has no \<open>date\<close> variable.
\<close>

definition requested_date :: "(string \<Rightarrow> jsval option) \<Rightarrow> string \<Rightarrow> HarEntry \<Rightarrow> jsval" where
  "requested_date JSON_parse filterDate entry =
     (if filterDate \<noteq> [] then JStr filterDate
      else (case request_text entry of
              None \<Rightarrow> JStr []
            | Some b \<Rightarrow>
                if b = [] then JStr []
                else (case JSON_parse b of
                        None \<Rightarrow> JStr []
                      | Some p \<Rightarrow>
                          (case get_prop p ''variables'' of
                             Inl _ \<Rightarrow> JStr []
                           | Inr vars \<Rightarrow>
                               (case get_opt vars ''date'' of
                                  None \<Rightarrow> JStr []
                                | Some JNull \<Rightarrow> JStr []
                                | Some d \<Rightarrow> d)))))"

text \<open>
  What the loop writes: a decoded result with the date it is printed under, or the
  report that the response of an entry could not be decoded.
\<close>

datatype har_event =
    Printed "DecodedSlot list" jsval
  | FailedToParse

text \<open>
  The loop over the matches, with the variable \<open>baseTime\<close> as its state. The two
  parsers stand for \<open>JSON.parse\<close>, read as an untyped value for a request body and at
  the declared type for a response; \<open>None\<close> is a \<open>SyntaxError\<close>.
\<close>

fun har_loop ::
    "(string \<Rightarrow> jsval option) \<Rightarrow> (string \<Rightarrow> AvailabilityResponse option) \<Rightarrow>
     string \<Rightarrow> jsnum \<Rightarrow> HarEntry list \<Rightarrow> jsval \<Rightarrow> har_event list" where
  "har_loop JSON_parse parse_response filterDate filterParty [] baseTime = []"
| "har_loop JSON_parse parse_response filterDate filterParty (entry # rest) baseTime =
     (let baseTime' = next_baseTime JSON_parse entry baseTime
      in if \<not> truthy_text (response_text entry)
         then har_loop JSON_parse parse_response filterDate filterParty rest baseTime'
         else (case parse_response (the (response_text entry)) of
                 None \<Rightarrow>
                   FailedToParse #
                   har_loop JSON_parse parse_response filterDate filterParty rest baseTime'
               | Some res \<Rightarrow>
                   (let requestedDate = requested_date JSON_parse filterDate entry
                    in case extractSlots_unchecked res baseTime' requestedDate of
                         Inl _ \<Rightarrow>
                           FailedToParse #
                           har_loop JSON_parse parse_response filterDate filterParty rest baseTime'
                       | Inr decoded \<Rightarrow>
                           Printed decoded
                             (if truthy requestedDate then requestedDate else JStr ''date-unknown'') #
                           (if filterDate \<noteq> [] \<or> truthy_num filterParty then []
                            else har_loop JSON_parse parse_response filterDate filterParty rest
                                   baseTime'))))"

datatype har_error = NoMatchingEntries

text \<open>
  \<open>runHarMode\<close> on the entries of the log (reading the file and \<open>har.log?.entries ?? []\<close>
  come before). The process exits with status 1 when nothing matches.
\<close>

definition runHarMode ::
    "(string \<Rightarrow> jsval option) \<Rightarrow> (string \<Rightarrow> AvailabilityResponse option) \<Rightarrow>
     HarEntry list \<Rightarrow> string \<Rightarrow> jsnum \<Rightarrow> har_error + har_event list" where
  "runHarMode JSON_parse parse_response entries filterDate filterParty =
     (let matches = filter (entry_matches filterDate filterParty) entries
      in if matches = [] then Inl NoMatchingEntries
         else Inr (har_loop JSON_parse parse_response filterDate filterParty matches (JStr ''19:00'')))"

section \<open>Live pipeline: \<open>runLiveMode\<close>\<close>

text \<open>
  The mutation of the captured body, \<open>body.variables = {...body.variables, date, partySize,
  forwardMinutes: 295, ...}\<close>, on the value that \<open>JSON.parse\<close> returned. The declared
  type of \<open>body\<close> is an object and is not checked: reading \<open>variables\<close> of \<open>null\<close> raises;
  the file is module code, which is strict, so the assignment raises on a
  primitive value; on an array it sets a property that \<open>JSON.stringify\<close> does not
  write. The result is the value that is serialised, with the new \<open>variables\<close> object.
\<close>

definition requested_variables :: "string \<Rightarrow> jsnum \<Rightarrow> (string \<times> jsval) list" where
  "requested_variables date partySize =
     [(''date'', JStr date),
      (''partySize'', JNum partySize),
      (''forwardMinutes'', JNum (Num 295)),
      (''backwardMinutes'', JNum (Num 1140)),
      (''forwardTimeslots'', JNum (Num 20)),
      (''backwardTimeslots'', JNum (Num 76))]"

definition new_variables :: "jsval option \<Rightarrow> string \<Rightarrow> jsnum \<Rightarrow> (string \<times> jsval) list" where
  "new_variables existing date partySize =
     define_props (spread existing) (requested_variables date partySize)"

definition mutate_body ::
    "jsval \<Rightarrow> string \<Rightarrow> jsnum \<Rightarrow> js_error + jsval \<times> (string \<times> jsval) list" where
  "mutate_body parsed date partySize =
     (case parsed of
        JNull \<Rightarrow> Inl TypeError
      | JObj props \<Rightarrow>
          (let vars = new_variables (map_of props ''variables'') date partySize
           in Inr (JObj (AList.update ''variables'' (JObj vars) props), vars))
      | JArr xs \<Rightarrow> Inr (JArr xs, new_variables None date partySize)
      | _ \<Rightarrow> Inl TypeError)"

text \<open>
  What the browser and the network do is given from outside: whether the launch
  succeeds (\<open>launch_failure\<close> is the text of the error, and \<open>chrome_launch_ok\<close> the
  outcome of the second launch with the installed browser), whether creating the context
  or the page raises (\<open>setup_failure\<close>), the first matching request with a body that is
  seen before the 30 second timer fires, with its body and its whitelisted headers
  (\<open>request_before_deadline\<close>), whether \<open>page.goto\<close> settles before that timer fires
  (\<open>navigation_settled_first\<close>), whether the context still has a page, and what the
  replayed request ends with: an exception, raised by the request or by reading the text
  of the response, or a response with its \<open>ok\<close> flag, status and text.
\<close>

datatype capture_outcome =
    Captured string "(string \<times> string) list"
  | CaptureFailed js_error
  | DeadlineUnhandled

datatype post_outcome =
    PostFailed js_error
  | Responded bool int string

record live_env =
  launch_failure :: "string option"
  chrome_launch_ok :: bool
  setup_failure :: "js_error option"
  request_before_deadline :: "(string \<times> (string \<times> string) list) option"
  navigation_settled_first :: bool
  page_open :: bool
  post_result :: post_outcome

text \<open>
  What the first \<open>try\<close> block ends with. An error of \<open>newContext\<close> or \<open>newPage\<close> is
  raised inside the block. The promise is resolved by the first matching request seen
  before the timer fires and rejected by the timer otherwise. The promise is awaited,
  and so has a handler, only once \<open>page.goto\<close> has settled (an error of the navigation is
  swallowed): a rejection after that is raised inside the block; a rejection while the
  navigation is still pending has no handler, and the process ends with it, as Node does
  by default with a rejection that nothing handles.
\<close>

definition capture_result :: "live_env \<Rightarrow> capture_outcome" where
  "capture_result env =
     (case setup_failure env of
        Some err \<Rightarrow> CaptureFailed err
      | None \<Rightarrow>
          (case request_before_deadline env of
             Some (capturedBody, capturedHeaders) \<Rightarrow> Captured capturedBody capturedHeaders
           | None \<Rightarrow>
               if navigation_settled_first env then CaptureFailed Timeout
               else DeadlineUnhandled))"

text \<open>
  The observable steps of a run: \<open>browser.close()\<close> with the line of the call, a
  message on the error console, the replayed request, and the printed result. A run ends
  by returning, by an exception that propagates, by a rejection that no handler takes, or
  by \<open>process.exit\<close>; after the last two nothing runs, also no \<open>catch\<close> or \<open>finally\<close>
  block. A call of \<open>browser.close()\<close> is taken to complete.
\<close>

datatype live_event =
    Close nat
  | ConsoleError string
  | Post string string "(string \<times> string) list"
  | PrintResult "DecodedSlot list" string

datatype run_end = Returned | Thrown js_error | Unhandled js_error | ProcessExit nat

definition GQL_URL :: string where
  "GQL_URL = ''https://www.opentable.com/dapi/fe/gql?optype=query&opname=RestaurantsAvailability''"

text \<open>The last \<open>try\<close> block, with its \<open>finally\<close>.\<close>

definition replay ::
    "(jsval \<Rightarrow> string) \<Rightarrow> (string \<Rightarrow> AvailabilityResponse option) \<Rightarrow> live_env \<Rightarrow>
     string \<Rightarrow> string \<Rightarrow> (string \<times> string) list \<Rightarrow> jsval \<Rightarrow> (string \<times> jsval) list \<Rightarrow>
     live_event list \<times> run_end" where
  "replay JSON_stringify parse_response env pageUrl date capturedHeaders body vars =
     (if \<not> page_open env
      then ([ConsoleError ''No page in context.'', Close 323], ProcessExit 1)
      else
        (let requestBody = JSON_stringify body;
             sent = Post GQL_URL requestBody
                      (define_props capturedHeaders
                         [(''Content-Type'', ''application/json''),
                          (''origin'', ''https://www.opentable.com''),
                          (''referer'', pageUrl)])
         in case post_result env of
              PostFailed err \<Rightarrow> ([sent, Close 357], Thrown err)
            | Responded ok status resText \<Rightarrow>
                if \<not> ok
                then ([sent, ConsoleError ''API request failed:'', Close 339], ProcessExit 1)
                else (case parse_response resText of
                        None \<Rightarrow>
                          ([sent, ConsoleError ''Invalid API response.'', Close 349], ProcessExit 1)
                      | Some res \<Rightarrow>
                          (let baseTime =
                                 (case map_of vars ''time'' of
                                    None \<Rightarrow> JStr ''19:00''
                                  | Some JNull \<Rightarrow> JStr ''19:00''
                                  | Some t \<Rightarrow> t)
                           in case extractSlots_unchecked res baseTime date of
                                Inl err \<Rightarrow> ([sent, Close 357], Thrown err)
                              | Inr decoded \<Rightarrow>
                                  ([sent, PrintResult decoded date, Close 357], Returned)))))"

definition runLiveMode ::
    "(string \<Rightarrow> jsval option) \<Rightarrow> (jsval \<Rightarrow> string) \<Rightarrow> (string \<Rightarrow> AvailabilityResponse option) \<Rightarrow>
     live_env \<Rightarrow> string \<Rightarrow> string \<Rightarrow> jsnum \<Rightarrow> live_event list \<times> run_end" where
  "runLiveMode JSON_parse JSON_stringify parse_response env pageUrl date partySize =
     (case (case launch_failure env of
              None \<Rightarrow> None
            | Some msg \<Rightarrow>
                if str_includes msg ''Executable doesn't exist'' \<and> chrome_launch_ok env then None
                else Some msg) of
        Some msg \<Rightarrow> ([], Thrown (OtherError msg))
      | None \<Rightarrow>
          (case capture_result env of
             CaptureFailed err \<Rightarrow> ([Close 283], Thrown err)
           | DeadlineUnhandled \<Rightarrow> ([], Unhandled Timeout)
           | Captured capturedBody capturedHeaders \<Rightarrow>
               if capturedBody = []
               then ([Close 288, ConsoleError ''Could not capture RestaurantsAvailability request.''],
                     ProcessExit 1)
               else (case JSON_parse capturedBody of
                       None \<Rightarrow>
                         ([Close 301, ConsoleError ''Invalid captured request body.''], ProcessExit 1)
                     | Some parsed \<Rightarrow>
                         (case mutate_body parsed date partySize of
                            Inl err \<Rightarrow> ([], Thrown err)
                          | Inr (body, vars) \<Rightarrow>
                              replay JSON_stringify parse_response env pageUrl date
                                capturedHeaders body vars))))"

text \<open>The calls of \<open>browser.close()\<close> in a run, by their lines.\<close>

fun closes :: "live_event list \<Rightarrow> nat list" where
  "closes [] = []"
| "closes (Close l # es) = l # closes es"
| "closes (_ # es) = closes es"

text \<open>
  The run reaches the mutation and the mutation raises: the captured body parses to
  \<open>null\<close> or to a primitive value.
\<close>

definition mutation_raises :: "(string \<Rightarrow> jsval option) \<Rightarrow> live_env \<Rightarrow> string \<Rightarrow> jsnum \<Rightarrow> bool" where
  "mutation_raises JSON_parse env date partySize =
     (case capture_result env of
        CaptureFailed _ \<Rightarrow> False
      | DeadlineUnhandled \<Rightarrow> False
      | Captured capturedBody _ \<Rightarrow>
          capturedBody \<noteq> [] \<and>
          (case JSON_parse capturedBody of
             None \<Rightarrow> False
           | Some parsed \<Rightarrow> isl (mutate_body parsed date partySize)))"

text \<open>The browser was launched: the first launch or the second one succeeded.\<close>

definition launched :: "live_env \<Rightarrow> bool" where
  "launched env =
     (case launch_failure env of
        None \<Rightarrow> True
      | Some msg \<Rightarrow> str_includes msg ''Executable doesn't exist'' \<and> chrome_launch_ok env)"

section \<open>Example inputs\<close>

text \<open>
  A recorded entry of the availability operation with a given request body (or none) and
  a given response text, and the texts and values used in the examples below.
\<close>

definition har_entry :: "string option \<Rightarrow> string \<Rightarrow> HarEntry" where
  "har_entry body resText =
     \<lparr>request = Some \<lparr>url = Some GQL_URL, http_method = Some ''POST'',
                       postData = (case body of None \<Rightarrow> None | Some t \<Rightarrow> Some \<lparr>text' = Some t\<rparr>)\<rparr>,
      response = Some \<lparr>content = Some \<lparr>text' = Some resText\<rparr>\<rparr>\<rparr>"

text \<open>\<^verbatim>\<open>{"variables":{"date":"2026-02-26","partySize":4}}\<close>\<close>

definition body_feb26 :: string where
  "body_feb26 =
     ''{'' @ quoted ''variables'' @ '':{'' @ quoted ''date'' @ '':'' @ quoted ''2026-02-26'' @ '','' @
     quoted ''partySize'' @ '':4}}''"

text \<open>\<^verbatim>\<open>{"variables":{"date":"2026-03-01","partySize":2}}\<close>\<close>

definition body_mar01 :: string where
  "body_mar01 =
     ''{'' @ quoted ''variables'' @ '':{'' @ quoted ''date'' @ '':'' @ quoted ''2026-03-01'' @ '','' @
     quoted ''partySize'' @ '':2}}''"

text \<open>\<^verbatim>\<open>{"variables":{"time":"18:00"}}\<close>, and what \<open>JSON.parse\<close> returns on it.\<close>

definition body_time1800 :: string where
  "body_time1800 = ''{'' @ quoted ''variables'' @ '':{'' @ quoted ''time'' @ '':'' @ quoted ''18:00'' @ ''}}''"

definition parse_time1800 :: "string \<Rightarrow> jsval option" where
  "parse_time1800 s =
     (if s = body_time1800 then Some (JObj [(''variables'', JObj [(''time'', JStr ''18:00'')])])
      else None)"

text \<open>
  \<^verbatim>\<open>{"data":{"availability":[{"availabilityDays":[{"dayOffset":0,"slots":[{"isAvailable":true,"timeOffsetMinutes":0}]}]}]}}\<close>,
  and what \<open>JSON.parse\<close> returns on it.
\<close>

definition response_one_slot_text :: string where
  "response_one_slot_text =
     ''{'' @ quoted ''data'' @ '':{'' @ quoted ''availability'' @ '':[{'' @ quoted ''availabilityDays'' @
     '':[{'' @ quoted ''dayOffset'' @ '':0,'' @ quoted ''slots'' @ '':[{'' @ quoted ''isAvailable'' @
     '':true,'' @ quoted ''timeOffsetMinutes'' @ '':0}]}]}]}}''"

definition response_one_slot :: AvailabilityResponse where
  "response_one_slot =
     \<lparr>data = Some \<lparr>availability = Some [\<lparr>restaurantId = None, availabilityDays = Some
        [\<lparr>dayOffset = 0, topExperience = None, slots = Some
           [\<lparr>isAvailable = Some True, timeOffsetMinutes = Some 0, type = None, typename = None\<rparr>]\<rparr>]\<rparr>]\<rparr>\<rparr>"

definition parse_one_slot :: "string \<Rightarrow> AvailabilityResponse option" where
  "parse_one_slot s = (if s = response_one_slot_text then Some response_one_slot else None)"

text \<open>
  A captured request body as \<open>JSON.parse\<close> returns it: the operation name, six variables
  of the page's own request, and the persisted query.
\<close>

definition captured_props :: "(string \<times> jsval) list" where
  "captured_props =
     [(''operationName'', JStr ''RestaurantsAvailability''),
      (''variables'', JObj
         [(''restaurantIds'', JArr [JNum (Num 1234)]),
          (''date'', JStr ''2026-02-20''),
          (''partySize'', JNum (Num 2)),
          (''time'', JStr ''19:00''),
          (''forwardMinutes'', JNum (Num 150)),
          (''backwardMinutes'', JNum (Num 150))]),
      (''extensions'', JObj
         [(''persistedQuery'', JObj
            [(''version'', JNum (Num 1)), (''sha256Hash'', JStr ''b2d05a06151b3cb21d9dfce4f021303eeba288fac347068b29c1cb66badc46af'')])])]"

text \<open>
  \<open>JSON.stringify\<close> on values whose keys and strings need no escaping, the text it gives
  for the captured body above, and \<open>JSON.parse\<close> on that text and on the text \<open>null\<close>.
\<close>

primrec stringify_plain :: "jsval \<Rightarrow> string" where
  "stringify_plain JNull = ''null''"
| "stringify_plain (JBool b) = (if b then ''true'' else ''false'')"
| "stringify_plain (JNum n) = (case n of Num i \<Rightarrow> String_num (Num i) | _ \<Rightarrow> ''null'')"
| "stringify_plain (JStr s) = quoted s"
| "stringify_plain (JArr xs) =
     ''['' @ drop 1 (concat (map (\<lambda>t. '','' @ t) (map stringify_plain xs))) @ '']''"
| "stringify_plain (JObj props) =
     ''{'' @ drop 1 (concat (map (\<lambda>(k, t). '','' @ quoted k @ '':'' @ t)
                          (map (map_prod id stringify_plain) props))) @ ''}''"

definition captured_text :: string where
  "captured_text = stringify_plain (JObj captured_props)"

definition parse_captured :: "string \<Rightarrow> jsval option" where
  "parse_captured s =
     (if s = captured_text then Some (JObj captured_props)
      else if s = ''null'' then Some JNull
      else None)"

text \<open>
  A run in which the browser starts, the page's request is captured with a given body,
  the page is still open, and the replayed request is answered with a given outcome.
\<close>

definition live_run :: "string \<Rightarrow> post_outcome \<Rightarrow> live_env" where
  "live_run capturedBody outcome =
     \<lparr>launch_failure = None, chrome_launch_ok = False, setup_failure = None,
      request_before_deadline = Some (capturedBody, [(''content-type'', ''application/json'')]),
      navigation_settled_first = True, page_open = True, post_result = outcome\<rparr>"

text \<open>
  Two runs in which no matching request is seen before the deadline: in the first the
  navigation has settled by then, in the second it is still pending.
\<close>

definition live_timeout :: live_env where
  "live_timeout =
     \<lparr>launch_failure = None, chrome_launch_ok = False, setup_failure = None,
      request_before_deadline = None, navigation_settled_first = True,
      page_open = True, post_result = PostFailed Timeout\<rparr>"

definition live_timeout_navigating :: live_env where
  "live_timeout_navigating =
     \<lparr>launch_failure = None, chrome_launch_ok = False, setup_failure = None,
      request_before_deadline = None, navigation_settled_first = False,
      page_open = True, post_result = PostFailed Timeout\<rparr>"

section \<open>Properties\<close>

subsection \<open>TimeCodec\<close>

declare ulp.simps [simp del]
declare dec_digits.simps [simp del]


lemma ulp_pos: "0 < ulp a"
  by (induction a rule: ulp.induct) (subst ulp.simps, simp)

lemma ulp_small: "a < 2 ^ 53 \<Longrightarrow> ulp a = 1"
  by (subst ulp.simps) simp

lemma round_double_small: "\<bar>x\<bar> < 2 ^ 53 \<Longrightarrow> round_double x = x"
  by (simp add: round_double_def ulp_small Let_def mult_sgn_abs)

lemma to_double_small: "\<bar>x\<bar> < 2 ^ 53 \<Longrightarrow> to_double x = Num x"
  by (simp add: to_double_def round_double_small)

lemma ulp_div: "a div ulp a < 2 ^ 53"
proof (induction a rule: ulp.induct)
  case (1 a)
  show ?case
  proof (cases "a < 2 ^ 53")
    case True
    then show ?thesis by (simp add: ulp_small)
  next
    case False
    then have u: "ulp a = 2 * ulp (a div 2)" by (subst ulp.simps) simp
    have "a div ulp a = (a div 2) div ulp (a div 2)"
      unfolding u using ulp_pos[of "a div 2"] by (simp add: zdiv_zmult2_eq)
    with 1[OF False] show ?thesis by simp
  qed
qed

lemma ulp_le: "a < 2 ^ (53 + k) \<Longrightarrow> ulp a \<le> 2 ^ k"
proof (induction a arbitrary: k rule: ulp.induct)
  case (1 a)
  show ?case
  proof (cases "a < 2 ^ 53")
    case True
    then show ?thesis by (simp add: ulp_small)
  next
    case False
    then have u: "ulp a = 2 * ulp (a div 2)" by (subst ulp.simps) simp
    from False 1(2) have "k \<noteq> 0" by (cases k) auto
    then obtain j where k: "k = Suc j" by (cases k) auto
    have "(2::int) ^ (53 + k) = 2 * 2 ^ (53 + j)" by (simp add: k power_add)
    with 1(2) have "a < 2 * 2 ^ (53 + j)" by simp
    then have "a div 2 < 2 ^ (53 + j)" by linarith
    from 1(1)[OF False this] show ?thesis by (simp add: u k)
  qed
qed

lemma ulp_ge: "2 ^ (52 + k) \<le> a \<Longrightarrow> 2 ^ k \<le> ulp a"
proof (induction a arbitrary: k rule: ulp.induct)
  case (1 a)
  show ?case
  proof (cases "a < 2 ^ 53")
    case True
    have "k = 0"
    proof (rule ccontr)
      assume "k \<noteq> 0"
      then have "(2::int) ^ 53 \<le> 2 ^ (52 + k)" by (intro power_increasing) auto
      with 1(2) True show False by linarith
    qed
    then show ?thesis using True by (simp add: ulp_small)
  next
    case False
    then have u: "ulp a = 2 * ulp (a div 2)" by (subst ulp.simps) simp
    show ?thesis
    proof (cases k)
      case 0
      then show ?thesis using ulp_pos[of a] by simp
    next
      case (Suc j)
      have "(2::int) ^ (52 + k) = 2 * 2 ^ (52 + j)" by (simp add: Suc power_add)
      with 1(2) have "2 * 2 ^ (52 + j) \<le> a" by simp
      then have "2 ^ (52 + j) \<le> a div 2" by linarith
      from 1(1)[OF False this] show ?thesis by (simp add: u Suc)
    qed
  qed
qed


lemma rounded_significand_bound:
  assumes "0 \<le> a" "a < 2 ^ 1024 - 2 ^ 970"
  defines "q \<equiv> ulp a"
  defines "m \<equiv> a div q"
  defines "r \<equiv> a mod q"
  defines "m' \<equiv> (if 2 * r < q then m else if q < 2 * r then m + 1 else if even m then m else m + 1)"
  shows "0 \<le> m' * q \<and> m' * q < 2 ^ 1024"
proof -
  have q0: "0 < q" by (simp add: q_def ulp_pos)
  have m0: "0 \<le> m" using assms(1) q0 by (simp add: m_def pos_imp_zdiv_nonneg_iff)
  have m53: "m < 2 ^ 53" unfolding m_def q_def by (rule ulp_div)
  have m'0: "0 \<le> m'" using m0 by (simp add: m'_def)
  have m'le: "m' \<le> m + 1" by (simp add: m'_def)
  have nonneg: "0 \<le> m' * q" using m'0 q0 by simp
  have "m' * q < 2 ^ 1024"
  proof (cases "a < 2 ^ 1023")
    case True
    then have "a < 2 ^ (53 + 970)" by simp
    then have "q \<le> 2 ^ 970" unfolding q_def by (rule ulp_le)
    moreover have "m' \<le> 2 ^ 53" using m'le m53 by linarith
    ultimately have "m' * q \<le> 2 ^ 53 * 2 ^ 970"
      using m'0 q0 by (intro mult_mono) auto
    also have "\<dots> < (2::int) ^ 1024" by simp
    finally show ?thesis .
  next
    case False
    then have "2 ^ (52 + 971) \<le> a" by simp
    then have ge: "2 ^ 971 \<le> q" unfolding q_def by (rule ulp_ge)
    from assms(2) have "a < 2 ^ (53 + 971)" by simp
    then have "q \<le> 2 ^ 971" unfolding q_def by (rule ulp_le)
    with ge have q: "q = 2 ^ 971" by simp
    have a: "a = m * q + r" by (simp add: m_def r_def)
    show ?thesis
    proof (cases "m = 2 ^ 53 - 1")
      case True
      with a assms(2) have "2 * r < q" by (simp add: q)
      then have "m' = m" by (simp add: m'_def)
      then show ?thesis by (simp add: True q)
    next
      case False
      with m53 have "m + 1 \<le> 2 ^ 53 - 1" by simp
      with m'le have "m' \<le> 2 ^ 53 - 1" by linarith
      then have "m' * q \<le> (2 ^ 53 - 1) * 2 ^ 971" by (simp add: q)
      also have "\<dots> < (2::int) ^ 1024" by simp
      finally show ?thesis .
    qed
  qed
  with nonneg show ?thesis by simp
qed

lemma abs_sgn_mult_le: "0 \<le> M \<Longrightarrow> \<bar>sgn x * M\<bar> \<le> (M::int)"
  by (simp add: abs_mult sgn_if)

lemma to_double_finite:
  assumes "\<bar>x\<bar> < 2 ^ 1024 - 2 ^ 970"
  shows "to_double x = Num (round_double x)"
proof -
  let ?a = "\<bar>x\<bar>"
  let ?q = "ulp ?a"
  let ?m = "?a div ?q"
  let ?r = "?a mod ?q"
  let ?m' = "(if 2 * ?r < ?q then ?m else if ?q < 2 * ?r then ?m + 1 else if even ?m then ?m else ?m + 1)"
  have b: "0 \<le> ?m' * ?q \<and> ?m' * ?q < 2 ^ 1024"
    by (rule rounded_significand_bound) (use assms in simp_all)
  have r: "round_double x = sgn x * (?m' * ?q)"
    by (simp add: round_double_def Let_def)
  have "\<bar>round_double x\<bar> \<le> ?m' * ?q"
    unfolding r using b by (intro abs_sgn_mult_le) blast
  with b have "\<bar>round_double x\<bar> < 2 ^ 1024" by linarith
  then show ?thesis by (simp add: to_double_def Let_def)
qed

lemma is_digit_ne_colon: "is_digit c \<Longrightarrow> c \<noteq> CHR '':''"
  by (auto simp: is_digit_def)

lemma wf_time_shape:
  assumes "wf_time s"
  obtains a b d e where "s = [a, b, CHR '':'', d, e]" "is_digit a" "is_digit b" "is_digit d" "is_digit e"
    "dec_value [a, b] < 24" "dec_value [d, e] < 60"
proof -
  from assms have len: "length s = 5" by (simp add: wf_time_def)
  then obtain a b c d e where s: "s = [a, b, c, d, e]"
    by (auto simp: length_Suc_conv eval_nat_numeral)
  with assms show ?thesis using that by (auto simp: wf_time_def)
qed

lemma digit_char_0: "digit_char 0 = CHR ''0''"
  by code_simp

lemma pad_two: "n < 100 \<Longrightarrow> padStart (String_num (Num (int n))) 2 CHR ''0'' = two_digits n"
proof (cases "n < 10")
  case True
  then show ?thesis by (simp add: dec_digits.simps padStart_def two_digits_def digit_char_0)
next
  case False
  assume "n < 100"
  then have "n div 10 < 10" by simp
  then have "dec_digits (n div 10) = [digit_char (n div 10)]"
    by (simp add: dec_digits.simps)
  with False have "dec_digits n = [digit_char (n div 10), digit_char (n mod 10)]"
    by (subst dec_digits.simps) simp
  then show ?thesis by (simp add: padStart_def two_digits_def)
qed

lemma trunc_rem_nonneg: "0 \<le> a \<Longrightarrow> 0 < b \<Longrightarrow> trunc_rem a b = a mod b"
  by (simp add: trunc_rem_def sgn_if)

lemma trunc_rem_bounds: "0 < b \<Longrightarrow> - b < trunc_rem a b \<and> trunc_rem a b < b"
proof -
  assume b: "0 < b"
  define r where "r = \<bar>a\<bar> mod b"
  have 1: "0 \<le> r" "r < b" using b by (simp_all add: r_def)
  have "trunc_rem a b = r \<or> trunc_rem a b = - r \<or> trunc_rem a b = 0"
    using b by (simp add: trunc_rem_def sgn_if r_def)
  with 1 b show ?thesis by auto
qed

lemma trunc_rem_cong: "0 < b \<Longrightarrow> trunc_rem a b mod b = a mod b"
  by (cases "0 \<le> a") (auto simp: trunc_rem_def sgn_if mod_minus_eq)

lemma wrap_mod: "trunc_rem (trunc_rem t 1440 + 1440) 1440 = t mod 1440"
proof -
  have "0 \<le> trunc_rem t 1440 + 1440" using trunc_rem_bounds[of 1440 t] by simp
  then have "trunc_rem (trunc_rem t 1440 + 1440) 1440 = (trunc_rem t 1440 + 1440) mod 1440"
    by (simp add: trunc_rem_nonneg)
  also have "\<dots> = trunc_rem t 1440 mod 1440" by simp
  also have "\<dots> = t mod 1440" by (simp add: trunc_rem_cong)
  finally show ?thesis .
qed

lemma wrap_mod2: "0 \<le> b \<Longrightarrow> trunc_rem (b + trunc_rem off 1440 + 1440) 1440 = (b + off) mod 1440"
proof -
  assume b: "0 \<le> b"
  have "0 \<le> b + trunc_rem off 1440 + 1440" using trunc_rem_bounds[of 1440 off] b by simp
  then have "trunc_rem (b + trunc_rem off 1440 + 1440) 1440 = (b + trunc_rem off 1440 + 1440) mod 1440"
    by (simp add: trunc_rem_nonneg)
  also have "\<dots> = (b + trunc_rem off 1440) mod 1440" by simp
  also have "\<dots> = (b + trunc_rem off 1440 mod 1440) mod 1440" by (simp add: mod_add_right_eq)
  also have "\<dots> = (b + off) mod 1440" by (simp add: trunc_rem_cong mod_add_right_eq)
  finally show ?thesis .
qed


lemma Number_two:
  assumes "is_digit a" "is_digit b"
  shows "Number_str [a, b] = Num (int (dec_value [a, b]))"
proof -
  have "digit_val a \<le> 9" "digit_val b \<le> 9"
    using assms by (auto simp: is_digit_def digit_val_def)
  then have "dec_value [a, b] \<le> 99" by (simp add: dec_value_def)
  then have "\<bar>int (dec_value [a, b])\<bar> < 2 ^ 53" by simp
  then have "to_double (int (dec_value [a, b])) = Num (int (dec_value [a, b]))"
    by (rule to_double_small)
  with assms show ?thesis by (simp add: Number_str_def)
qed

lemma wrapped_num:
  "num_rem (num_add (num_rem (Num t) (Num (24 * 60))) (Num (24 * 60))) (Num (24 * 60)) = Num (t mod 1440)"
proof -
  have r: "num_rem (Num t) (Num (24 * 60)) = Num (trunc_rem t 1440)"
    by (simp add: trunc_rem_def)
  from trunc_rem_bounds[of 1440 t] have "\<bar>trunc_rem t 1440 + 1440\<bar> < 2 ^ 53"
    by (simp add: abs_less_iff)
  then have a: "num_add (Num (trunc_rem t 1440)) (Num (24 * 60)) = Num (trunc_rem t 1440 + 1440)"
    by (simp add: to_double_small)
  have "num_rem (Num (trunc_rem t 1440 + 1440)) (Num (24 * 60)) = Num (trunc_rem (trunc_rem t 1440 + 1440) 1440)"
    by (simp add: trunc_rem_def)
  then show ?thesis unfolding r a by (simp add: wrap_mod)
qed

lemma rem60_num: "0 \<le> w \<Longrightarrow> num_rem (Num w) (Num 60) = Num (w mod 60)"
  using trunc_rem_nonneg[of w 60] by (simp add: trunc_rem_def)

lemma offsetToTime_parts:
  assumes "split_on CHR '':'' s = [x, y]" "Number_str x = Num bh" "Number_str y = Num bm"
    "num_add (num_add (num_mul (Num bh) (Num 60)) (Num bm)) (Num off) = Num t"
  shows "offsetToTime s off =
           padStart (String_num (Num (t mod 1440 div 60))) 2 CHR ''0'' @ '':'' @
           padStart (String_num (Num (t mod 1440 mod 60))) 2 CHR ''0''"
proof -
  have p: "map Number_str (split_on CHR '':'' s) = [Num bh, Num bm]"
    using assms(1-3) by simp
  have w: "0 \<le> t mod 1440" by simp
  show ?thesis
    unfolding offsetToTime_def p Let_def list.case assms(4) wrapped_num rem60_num[OF w] floor_div60.simps
    by (rule refl)
qed

lemma offsetToTime_total:
  assumes "wf_time s"
    "to_double (baseHour s * 60 + baseMinute s + off) = Num t"
  shows "offsetToTime s off = format_minutes (t mod 1440)"
proof -
  from assms(1) obtain a b d e where s: "s = [a, b, CHR '':'', d, e]"
    and dg: "is_digit a" "is_digit b" "is_digit d" "is_digit e"
    and rg: "dec_value [a, b] < 24" "dec_value [d, e] < 60"
    by (rule wf_time_shape)
  define w where "w = t mod 1440"
  have w: "0 \<le> w" "w < 1440" by (simp_all add: w_def)
  have sp: "split_on CHR '':'' s = [[a, b], [d, e]]"
    using dg by (auto simp: s dest: is_digit_ne_colon)
  have nh: "Number_str [a, b] = Num (baseHour s)"
    using dg by (simp add: Number_two baseHour_def s)
  have nm: "Number_str [d, e] = Num (baseMinute s)"
    using dg by (simp add: Number_two baseMinute_def s)
  have bh: "0 \<le> baseHour s" "baseHour s < 24" using rg by (simp_all add: baseHour_def s)
  have bm: "0 \<le> baseMinute s" "baseMinute s < 60" using rg by (simp_all add: baseMinute_def s)
  have h60: "num_mul (Num (baseHour s)) (Num 60) = Num (baseHour s * 60)"
    using bh by (simp add: to_double_small)
  have hm: "num_add (Num (baseHour s * 60)) (Num (baseMinute s)) = Num (baseHour s * 60 + baseMinute s)"
    using bh bm by (simp add: to_double_small)
  have tot: "num_add (num_add (num_mul (Num (baseHour s)) (Num 60)) (Num (baseMinute s))) (Num off) = Num t"
    unfolding h60 hm using assms(2) by simp
  have hh: "nat (w div 60) < 100" using w by simp
  have mm: "nat (w mod 60) < 100" by simp
  have *: "offsetToTime s off =
      padStart (String_num (Num (w div 60))) 2 CHR ''0'' @ '':'' @ padStart (String_num (Num (w mod 60))) 2 CHR ''0''"
    unfolding w_def by (rule offsetToTime_parts[OF sp nh nm tot])
  have h2: "padStart (String_num (Num (w div 60))) 2 CHR ''0'' = two_digits (nat w div 60)"
  proof -
    have "0 \<le> w div 60" using w by simp
    then have "int (nat (w div 60)) = w div 60" by simp
    with pad_two[OF hh] show ?thesis using w by (simp add: nat_div_distrib)
  qed
  have m2: "padStart (String_num (Num (w mod 60))) 2 CHR ''0'' = two_digits (nat w mod 60)"
  proof -
    have "0 \<le> w mod 60" by simp
    then have "int (nat (w mod 60)) = w mod 60" by simp
    with pad_two[OF mm] show ?thesis using w by (simp add: nat_mod_distrib)
  qed
  show ?thesis
    unfolding * h2 m2 by (simp add: format_minutes_def w_def)
qed

lemma base_minutes_range:
  assumes "wf_time s"
  shows "0 \<le> baseHour s * 60 + baseMinute s \<and> baseHour s * 60 + baseMinute s < 1440"
proof -
  from assms have "dec_value (take 2 s) < 24" "dec_value (drop 3 s) < 60"
    by (simp_all add: wf_time_def)
  then show ?thesis by (simp add: baseHour_def baseMinute_def)
qed

lemma offsetToTime_wf:
  assumes "wf_time s" "\<bar>off\<bar> \<le> 2 ^ 53 - 1440"
  shows "offsetToTime s off = format_minutes ((baseHour s * 60 + baseMinute s + off) mod 1440)"
proof -
  from base_minutes_range[OF assms(1)] assms(2)
  have "\<bar>baseHour s * 60 + baseMinute s + off\<bar> < 2 ^ 53"
    by (simp add: abs_less_iff abs_le_iff)
  then have "to_double (baseHour s * 60 + baseMinute s + off) = Num (baseHour s * 60 + baseMinute s + off)"
    by (rule to_double_small)
  with assms(1) show ?thesis by (rule offsetToTime_total)
qed

lemma offsetToTime_rounded:
  assumes "wf_time s" "\<bar>off\<bar> \<le> 2 ^ 1024 - 2 ^ 971"
  shows "offsetToTime s off =
           format_minutes (round_double (baseHour s * 60 + baseMinute s + off) mod 1440)"
proof -
  from base_minutes_range[OF assms(1)] assms(2)
  have "\<bar>baseHour s * 60 + baseMinute s + off\<bar> < 2 ^ 1024 - 2 ^ 970"
    by (simp add: abs_less_iff abs_le_iff)
  then have "to_double (baseHour s * 60 + baseMinute s + off) =
               Num (round_double (baseHour s * 60 + baseMinute s + off))"
    by (rule to_double_finite)
  with assms(1) show ?thesis by (rule offsetToTime_total)
qed

lemma digit_char_is_digit: "n < 10 \<Longrightarrow> is_digit (digit_char n)"
  by (simp add: is_digit_def digit_char_def)

lemma digit_val_char: "n < 10 \<Longrightarrow> digit_val (digit_char n) = n"
  by (simp add: digit_val_def digit_char_def)

lemma dec_value_two_digits: "n < 100 \<Longrightarrow> dec_value (two_digits n) = n"
  by (simp add: dec_value_def two_digits_def digit_val_char)

lemma wf_time_format:
  assumes "0 \<le> w" "w < 1440"
  shows "wf_time (format_minutes w)"
proof -
  have h: "nat w div 60 < 24" using assms by simp
  have m: "nat w mod 60 < 60" by simp
  have dh: "dec_value (two_digits (nat w div 60)) < 24" using h by (simp add: dec_value_two_digits)
  have dm: "dec_value (two_digits (nat w mod 60)) < 60" using m by (simp add: dec_value_two_digits)
  have tk: "take 2 (format_minutes w) = two_digits (nat w div 60)"
    by (simp add: format_minutes_def two_digits_def)
  have dr: "drop 3 (format_minutes w) = two_digits (nat w mod 60)"
    by (simp add: format_minutes_def two_digits_def)
  have dgs: "is_digit (format_minutes w ! 0)" "is_digit (format_minutes w ! 1)"
     "format_minutes w ! 2 = CHR '':''" "is_digit (format_minutes w ! 3)" "is_digit (format_minutes w ! 4)"
     "length (format_minutes w) = 5"
    using h m by (simp_all add: format_minutes_def two_digits_def digit_char_is_digit)
  show ?thesis
    unfolding wf_time_def tk dr using dgs dh dm by simp
qed

text \<open>
  C1, as amended. For a well-formed base time \<open>HH:MM\<close> and every integer offset of
  magnitude at most \<open>2 ^ 53 - 1440\<close>, where the sum of the minutes is exact,
  \<open>offsetToTime\<close> is the zero-padded rendering of the minute of the day obtained by the
  double remainder. The formula of the claim is read with \<open>%\<close> binding tighter than \<open>+\<close>
  (first equation) and as the source computes it (second equation); both hold. For every
  integer offset up to the largest double, \<open>2 ^ 1024 - 2 ^ 971\<close>, the result is a
  well-formed \<open>HH:MM\<close> string, and the three examples evaluate as stated.
\<close>

theorem offsetToTime_wraps:
  "(wf_time baseTime \<and> \<bar>offsetMinutes\<bar> \<le> 2 ^ 53 - 1440 \<longrightarrow>
      offsetToTime baseTime offsetMinutes =
        format_minutes (trunc_rem ((baseHour baseTime * 60 + baseMinute baseTime + trunc_rem offsetMinutes 1440) + 1440) 1440) \<and>
      offsetToTime baseTime offsetMinutes =
        format_minutes (trunc_rem (trunc_rem (baseHour baseTime * 60 + baseMinute baseTime + offsetMinutes) 1440 + 1440) 1440)) \<and>
   (wf_time baseTime \<and> \<bar>offsetMinutes\<bar> \<le> 2 ^ 1024 - 2 ^ 971 \<longrightarrow>
      wf_time (offsetToTime baseTime offsetMinutes)) \<and>
   offsetToTime ''19:00'' 0 = ''19:00'' \<and>
   offsetToTime ''23:30'' 90 = ''01:00'' \<and>
   offsetToTime ''00:00'' (- 30) = ''23:30''"
proof -
  have ex: "offsetToTime ''19:00'' 0 = ''19:00''" "offsetToTime ''23:30'' 90 = ''01:00''"
    "offsetToTime ''00:00'' (- 30) = ''23:30''"
    by code_simp+
  have gen: "offsetToTime baseTime offsetMinutes =
        format_minutes (trunc_rem ((baseHour baseTime * 60 + baseMinute baseTime + trunc_rem offsetMinutes 1440) + 1440) 1440) \<and>
      offsetToTime baseTime offsetMinutes =
        format_minutes (trunc_rem (trunc_rem (baseHour baseTime * 60 + baseMinute baseTime + offsetMinutes) 1440 + 1440) 1440)"
    if wf: "wf_time baseTime" and bd: "\<bar>offsetMinutes\<bar> \<le> 2 ^ 53 - 1440"
  proof -
    let ?b = "baseHour baseTime * 60 + baseMinute baseTime"
    have b: "0 \<le> ?b" by (simp add: baseHour_def baseMinute_def)
    have e: "offsetToTime baseTime offsetMinutes = format_minutes ((?b + offsetMinutes) mod 1440)"
      by (rule offsetToTime_wf[OF wf bd])
    show ?thesis
      unfolding wrap_mod wrap_mod2[OF b] e by simp
  qed
  have wfr: "wf_time (offsetToTime baseTime offsetMinutes)"
    if wf: "wf_time baseTime" and bd: "\<bar>offsetMinutes\<bar> \<le> 2 ^ 1024 - 2 ^ 971"
    unfolding offsetToTime_rounded[OF wf bd] by (rule wf_time_format) simp_all
  from ex gen wfr show ?thesis by blast
qed

theorem offsetToTime_wraps_witness:
  "wf_time ''23:30'' \<and> offsetToTime ''23:30'' 1530 = ''01:00'' \<and>
   wf_time (offsetToTime ''23:30'' 1152921504606846976)"
proof -
  have wf: "wf_time ''23:30''" by code_simp
  have v: "format_minutes (trunc_rem ((baseHour ''23:30'' * 60 + baseMinute ''23:30'' + trunc_rem 1530 1440) + 1440) 1440) = ''01:00''"
    by code_simp
  have b1: "\<bar>1530 :: int\<bar> \<le> 2 ^ 53 - 1440" by simp
  have b2: "\<bar>1152921504606846976 :: int\<bar> \<le> 2 ^ 1024 - 2 ^ 971" by simp
  from offsetToTime_wraps[of "''23:30''" 1530] wf v b1
  have 1: "offsetToTime ''23:30'' 1530 = ''01:00''" by simp
  from offsetToTime_wraps[of "''23:30''" 1152921504606846976] wf b2
  have 2: "wf_time (offsetToTime ''23:30'' 1152921504606846976)" by blast
  from wf 1 2 show ?thesis by blast
qed

text \<open>
  C1 as stated fails for an offset near \<open>2 ^ 53\<close>: the sum of the minutes is rounded to
  the nearest double before the remainder is taken. From 19:00 with the offset
  \<open>2 ^ 53 - 1\<close> the sum \<open>2 ^ 53 + 1139\<close> is rounded to \<open>2 ^ 53 + 1140\<close>, and the result is
  19:32, where the formula of the claim, under either reading, gives 19:31.
\<close>

theorem offsetToTime_wraps_counterexample:
  "wf_time ''19:00'' \<and>
   to_double 9007199254740991 = Num 9007199254740991 \<and>
   offsetToTime ''19:00'' 9007199254740991 = ''19:32'' \<and>
   format_minutes (trunc_rem ((baseHour ''19:00'' * 60 + baseMinute ''19:00'' + trunc_rem 9007199254740991 1440) + 1440) 1440) = ''19:31'' \<and>
   format_minutes (trunc_rem (trunc_rem (baseHour ''19:00'' * 60 + baseMinute ''19:00'' + 9007199254740991) 1440 + 1440) 1440) = ''19:31''"
  by code_simp

subsection \<open>SlotDecoder\<close>

lemma push_slots_acc:
  "push_slots baseTime ss acc = acc @ map (decode_slot baseTime) (filter slot_included ss)"
  by (induction ss arbitrary: acc)
     (auto simp: slot_included_def decode_slot_def split: option.splits)

lemma extractSlots_day:
  assumes "select_day0 (days_of res) = Some day"
  shows "extractSlots res baseTime requestedDate =
           (case slots day of None \<Rightarrow> [] | Some ss \<Rightarrow> map (decode_slot baseTime) (filter slot_included ss))"
  using assms by (simp add: extractSlots_def push_slots_acc split: option.splits)

lemma days_of_first:
  assumes "data res = Some dt" "availability dt = Some (a # others)" "availabilityDays a = Some days"
  shows "days_of res = days"
  using assms by (simp add: days_of_def)

lemma find_first_match:
  assumes "days = pre @ d # post" "P d" "\<forall>x\<in>set pre. \<not> P x"
  shows "find P days = Some d"
  using assms by (induction pre arbitrary: days) auto

lemma find_no_match: "(\<forall>x\<in>set days. \<not> P x) \<Longrightarrow> find P days = None"
  by (simp add: find_None_iff)

lemma select_day0_zero:
  assumes "days = pre @ d # post" "dayOffset d = 0" "\<forall>x\<in>set pre. dayOffset x \<noteq> 0"
  shows "select_day0 days = Some d"
  using find_first_match[OF assms(1), of "\<lambda>d. dayOffset d = 0"] assms(2,3)
  by (simp add: select_day0_def)

lemma select_day0_fallback:
  assumes "\<forall>x\<in>set days. dayOffset x \<noteq> 0"
  shows "select_day0 days = (case days of [] \<Rightarrow> None | d # _ \<Rightarrow> Some d)"
  using find_no_match[of days "\<lambda>d. dayOffset d = 0"] assms
  by (simp add: select_day0_def)

text \<open>
  C2. When a day is selected and has slots, the output is the decoding of exactly the
  slots that are available and carry a numeric offset, in the order of the input; the
  type of a decoded slot is \<open>Standard\<close> when the slot has none. On the response of the
  specification's example, whatever its unspecified fields hold, the output is the single
  slot \<open>19:00\<close> of type \<open>Standard\<close>.
\<close>

theorem extractSlots_filters:
  "(select_day0 (days_of res) = Some day \<and> slots day = Some ss \<longrightarrow>
      extractSlots res baseTime requestedDate = map (decode_slot baseTime) (filter slot_included ss)) \<and>
   extractSlots
     \<lparr>data = Some \<lparr>availability = Some [\<lparr>restaurantId = rid, availabilityDays = Some
        [\<lparr>dayOffset = 1, topExperience = top1, slots = slots1\<rparr>,
         \<lparr>dayOffset = 0, topExperience = top0, slots = Some
            [\<lparr>isAvailable = Some True, timeOffsetMinutes = Some 0, type = Some ''Standard'', typename = tn1\<rparr>,
             \<lparr>isAvailable = Some False, timeOffsetMinutes = Some 30, type = ty2, typename = tn2\<rparr>]\<rparr>]\<rparr>]\<rparr>\<rparr>
     ''19:00'' requestedDate
   = [\<lparr>time = ''19:00'', type' = ''Standard''\<rparr>]"
proof -
  have t: "offsetToTime ''19:00'' 0 = ''19:00''" by code_simp
  have 1: "select_day0 (days_of res) = Some day \<and> slots day = Some ss \<longrightarrow>
      extractSlots res baseTime requestedDate = map (decode_slot baseTime) (filter slot_included ss)"
    by (simp add: extractSlots_day)
  have 2: "extractSlots
     \<lparr>data = Some \<lparr>availability = Some [\<lparr>restaurantId = rid, availabilityDays = Some
        [\<lparr>dayOffset = 1, topExperience = top1, slots = slots1\<rparr>,
         \<lparr>dayOffset = 0, topExperience = top0, slots = Some
            [\<lparr>isAvailable = Some True, timeOffsetMinutes = Some 0, type = Some ''Standard'', typename = tn1\<rparr>,
             \<lparr>isAvailable = Some False, timeOffsetMinutes = Some 30, type = ty2, typename = tn2\<rparr>]\<rparr>]\<rparr>]\<rparr>\<rparr>
     ''19:00'' requestedDate
   = [\<lparr>time = ''19:00'', type' = ''Standard''\<rparr>]"
    by (simp add: extractSlots_def days_of_def select_day0_def t)
  from 1 2 show ?thesis by (rule conjI)
qed

theorem extractSlots_filters_witness:
  "select_day0 (days_of
      \<lparr>data = Some \<lparr>availability = Some [\<lparr>restaurantId = None, availabilityDays = Some
        [\<lparr>dayOffset = 0, topExperience = None, slots = Some
            [\<lparr>isAvailable = Some True, timeOffsetMinutes = Some 90, type = None, typename = None\<rparr>,
             \<lparr>isAvailable = None, timeOffsetMinutes = Some 15, type = None, typename = None\<rparr>,
             \<lparr>isAvailable = Some True, timeOffsetMinutes = None, type = None, typename = None\<rparr>,
             \<lparr>isAvailable = Some True, timeOffsetMinutes = Some (- 30), type = Some ''Experience'', typename = None\<rparr>]\<rparr>]\<rparr>]\<rparr>\<rparr>)
    = Some \<lparr>dayOffset = 0, topExperience = None, slots = Some
            [\<lparr>isAvailable = Some True, timeOffsetMinutes = Some 90, type = None, typename = None\<rparr>,
             \<lparr>isAvailable = None, timeOffsetMinutes = Some 15, type = None, typename = None\<rparr>,
             \<lparr>isAvailable = Some True, timeOffsetMinutes = None, type = None, typename = None\<rparr>,
             \<lparr>isAvailable = Some True, timeOffsetMinutes = Some (- 30), type = Some ''Experience'', typename = None\<rparr>]\<rparr> \<and>
   extractSlots
      \<lparr>data = Some \<lparr>availability = Some [\<lparr>restaurantId = None, availabilityDays = Some
        [\<lparr>dayOffset = 0, topExperience = None, slots = Some
            [\<lparr>isAvailable = Some True, timeOffsetMinutes = Some 90, type = None, typename = None\<rparr>,
             \<lparr>isAvailable = None, timeOffsetMinutes = Some 15, type = None, typename = None\<rparr>,
             \<lparr>isAvailable = Some True, timeOffsetMinutes = None, type = None, typename = None\<rparr>,
             \<lparr>isAvailable = Some True, timeOffsetMinutes = Some (- 30), type = Some ''Experience'', typename = None\<rparr>]\<rparr>]\<rparr>]\<rparr>\<rparr>
      ''23:30'' ''2026-02-26''
    = [\<lparr>time = ''01:00'', type' = ''Standard''\<rparr>, \<lparr>time = ''23:00'', type' = ''Experience''\<rparr>]"
proof -
  let ?ss = "[\<lparr>isAvailable = Some True, timeOffsetMinutes = Some 90, type = None, typename = None\<rparr>,
             \<lparr>isAvailable = None, timeOffsetMinutes = Some 15, type = None, typename = None\<rparr>,
             \<lparr>isAvailable = Some True, timeOffsetMinutes = None, type = None, typename = None\<rparr>,
             \<lparr>isAvailable = Some True, timeOffsetMinutes = Some (- 30), type = Some ''Experience'', typename = None\<rparr>]"
  let ?day = "\<lparr>dayOffset = 0, topExperience = None, slots = Some ?ss\<rparr>"
  let ?res = "\<lparr>data = Some \<lparr>availability = Some [\<lparr>restaurantId = None, availabilityDays = Some [?day]\<rparr>]\<rparr>\<rparr>"
  have sel: "select_day0 (days_of ?res) = Some ?day"
    by (simp add: days_of_def select_day0_def)
  have t1: "offsetToTime ''23:30'' 90 = ''01:00''" by code_simp
  have t2: "offsetToTime ''23:30'' (- 30) = ''23:00''" by code_simp
  have m: "map (decode_slot ''23:30'') (filter slot_included ?ss)
     = [\<lparr>time = ''01:00'', type' = ''Standard''\<rparr>, \<lparr>time = ''23:00'', type' = ''Experience''\<rparr>]"
    by (simp add: decode_slot_def slot_included_def t1 t2)
  from extractSlots_filters[of ?res ?day ?ss "''23:30''" "''2026-02-26''"] sel m
  show ?thesis by simp
qed


text \<open>
  C3. The days are those of the first availability element. The day decoded is the
  first one whose \<open>dayOffset\<close> is 0 when there is one, and the first day of the sequence
  when no day has \<open>dayOffset\<close> 0.
\<close>

theorem extractSlots_selects_day:
  assumes "data res = Some dt" "availability dt = Some (a # others)" "availabilityDays a = Some days"
  shows "(\<forall>pre d post.
            days = pre @ d # post \<and> dayOffset d = 0 \<and> (\<forall>x\<in>set pre. dayOffset x \<noteq> 0) \<longrightarrow>
            select_day0 (days_of res) = Some d \<and>
            extractSlots res baseTime requestedDate =
              (case slots d of None \<Rightarrow> [] | Some ss \<Rightarrow> map (decode_slot baseTime) (filter slot_included ss))) \<and>
         (\<forall>d rest.
            days = d # rest \<and> (\<forall>x\<in>set days. dayOffset x \<noteq> 0) \<longrightarrow>
            select_day0 (days_of res) = Some d \<and>
            extractSlots res baseTime requestedDate =
              (case slots d of None \<Rightarrow> [] | Some ss \<Rightarrow> map (decode_slot baseTime) (filter slot_included ss)))"
proof -
  have eq: "days_of res = days" by (rule days_of_first[OF assms])
  have zero: "select_day0 (days_of res) = Some d"
    if "days = pre @ d # post" "dayOffset d = 0" "\<forall>x\<in>set pre. dayOffset x \<noteq> 0" for pre d post
    unfolding eq using that by (rule select_day0_zero)
  have fallback: "select_day0 (days_of res) = Some d"
    if "days = d # rest" "\<forall>x\<in>set days. dayOffset x \<noteq> 0" for d rest
    unfolding eq using select_day0_fallback[OF that(2)] that(1) by simp
  show ?thesis
    using zero fallback by (auto simp: extractSlots_day simp del: set_ConsD)
qed

text \<open>
  C7. When \<open>availabilityDays\<close> is absent or empty (also because \<open>data\<close> or
  \<open>availability\<close> is absent or empty), or the selected day has no slots, the result is
  the empty sequence. The function has no failing branch on a response of its declared
  type: it is total and returns a list.
\<close>

theorem extractSlots_empty:
  "(data res = None \<or>
    (\<exists>dt. data res = Some dt \<and>
       (availability dt = None \<or> availability dt = Some [] \<or>
        (\<exists>a others. availability dt = Some (a # others) \<and>
           (availabilityDays a = None \<or> availabilityDays a = Some [])))) \<or>
    (\<exists>day. select_day0 (days_of res) = Some day \<and> (slots day = None \<or> slots day = Some []))
    \<longrightarrow> extractSlots res baseTime requestedDate = [])"
proof -
  have absent: "extractSlots res baseTime requestedDate = []" if "days_of res = []"
    using that by (simp add: extractSlots_def select_day0_def)
  have noslots: "extractSlots res baseTime requestedDate = []"
    if "select_day0 (days_of res) = Some day" "slots day = None \<or> slots day = Some []" for day
    using that by (auto simp: extractSlots_day)
  have "days_of res = []"
    if "data res = None \<or>
      (\<exists>dt. data res = Some dt \<and>
       (availability dt = None \<or> availability dt = Some [] \<or>
        (\<exists>a others. availability dt = Some (a # others) \<and>
           (availabilityDays a = None \<or> availabilityDays a = Some []))))"
    using that by (auto simp: days_of_def)
  with absent noslots show ?thesis by blast
qed

text \<open>
  C9. The result of \<open>extractSlots\<close> is the same for any two values of \<open>requestedDate\<close>.
\<close>

theorem extractSlots_ignores_requestedDate:
  "extractSlots res baseTime requestedDate1 = extractSlots res baseTime requestedDate2"
  by (simp add: extractSlots_def)


theorem extractSlots_selects_day_witness:
  "extractSlots
     \<lparr>data = Some \<lparr>availability = Some [\<lparr>restaurantId = None, availabilityDays = Some
        [\<lparr>dayOffset = 1, topExperience = None, slots = Some
            [\<lparr>isAvailable = Some True, timeOffsetMinutes = Some 15, type = None, typename = None\<rparr>]\<rparr>,
         \<lparr>dayOffset = 0, topExperience = None, slots = Some
            [\<lparr>isAvailable = Some True, timeOffsetMinutes = Some 30, type = None, typename = None\<rparr>]\<rparr>,
         \<lparr>dayOffset = 0, topExperience = None, slots = Some
            [\<lparr>isAvailable = Some True, timeOffsetMinutes = Some 45, type = None, typename = None\<rparr>]\<rparr>]\<rparr>]\<rparr>\<rparr>
     ''19:00'' ''2026-02-26''
   = [\<lparr>time = ''19:30'', type' = ''Standard''\<rparr>] \<and>
   extractSlots
     \<lparr>data = Some \<lparr>availability = Some [\<lparr>restaurantId = None, availabilityDays = Some
        [\<lparr>dayOffset = 2, topExperience = None, slots = Some
            [\<lparr>isAvailable = Some True, timeOffsetMinutes = Some 15, type = None, typename = None\<rparr>]\<rparr>,
         \<lparr>dayOffset = 1, topExperience = None, slots = Some
            [\<lparr>isAvailable = Some True, timeOffsetMinutes = Some 30, type = None, typename = None\<rparr>]\<rparr>]\<rparr>]\<rparr>\<rparr>
     ''19:00'' ''2026-02-26''
   = [\<lparr>time = ''19:15'', type' = ''Standard''\<rparr>]"
proof -
  let ?s15 = "\<lparr>isAvailable = Some True, timeOffsetMinutes = Some 15, type = None, typename = None\<rparr>"
  let ?s30 = "\<lparr>isAvailable = Some True, timeOffsetMinutes = Some 30, type = None, typename = None\<rparr>"
  let ?s45 = "\<lparr>isAvailable = Some True, timeOffsetMinutes = Some 45, type = None, typename = None\<rparr>"
  let ?d1 = "\<lparr>dayOffset = 1, topExperience = None, slots = Some [?s15]\<rparr>"
  let ?d0 = "\<lparr>dayOffset = 0, topExperience = None, slots = Some [?s30]\<rparr>"
  let ?d0' = "\<lparr>dayOffset = 0, topExperience = None, slots = Some [?s45]\<rparr>"
  let ?d2 = "\<lparr>dayOffset = 2, topExperience = None, slots = Some [?s15]\<rparr>"
  let ?d1' = "\<lparr>dayOffset = 1, topExperience = None, slots = Some [?s30]\<rparr>"
  let ?a1 = "\<lparr>restaurantId = None, availabilityDays = Some [?d1, ?d0, ?d0']\<rparr>"
  let ?a2 = "\<lparr>restaurantId = None, availabilityDays = Some [?d2, ?d1']\<rparr>"
  let ?r1 = "\<lparr>data = Some \<lparr>availability = Some [?a1]\<rparr>\<rparr>"
  let ?r2 = "\<lparr>data = Some \<lparr>availability = Some [?a2]\<rparr>\<rparr>"
  have t15: "offsetToTime ''19:00'' 15 = ''19:15''" by code_simp
  have t30: "offsetToTime ''19:00'' 30 = ''19:30''" by code_simp
  have p1: "data ?r1 = Some \<lparr>availability = Some [?a1]\<rparr>"
    "availability \<lparr>availability = Some [?a1]\<rparr> = Some (?a1 # [])"
    "availabilityDays ?a1 = Some [?d1, ?d0, ?d0']"
    by simp_all
  have p2: "data ?r2 = Some \<lparr>availability = Some [?a2]\<rparr>"
    "availability \<lparr>availability = Some [?a2]\<rparr> = Some (?a2 # [])"
    "availabilityDays ?a2 = Some [?d2, ?d1']"
    by simp_all
  have 1: "extractSlots ?r1 ''19:00'' ''2026-02-26'' =
             (case slots ?d0 of None \<Rightarrow> [] | Some ss \<Rightarrow> map (decode_slot ''19:00'') (filter slot_included ss))"
    by (rule conjunct2[OF conjunct1[OF extractSlots_selects_day[OF p1], rule_format,
          where pre = "[?d1]" and d = "?d0" and post = "[?d0']"]]) simp
  have 2: "extractSlots ?r2 ''19:00'' ''2026-02-26'' =
             (case slots ?d2 of None \<Rightarrow> [] | Some ss \<Rightarrow> map (decode_slot ''19:00'') (filter slot_included ss))"
    by (rule conjunct2[OF conjunct2[OF extractSlots_selects_day[OF p2], rule_format,
          where d = "?d2" and rest = "[?d1']"]]) simp
  show ?thesis
    unfolding 1 2 by (simp add: decode_slot_def slot_included_def t15 t30)
qed

theorem extractSlots_empty_witness:
  "extractSlots \<lparr>data = None\<rparr> ''19:00'' ''2026-02-26'' = [] \<and>
   extractSlots
     \<lparr>data = Some \<lparr>availability = Some [\<lparr>restaurantId = None, availabilityDays = Some
        [\<lparr>dayOffset = 0, topExperience = None, slots = None\<rparr>]\<rparr>]\<rparr>\<rparr>
     ''19:00'' ''2026-02-26'' = []"
proof -
  let ?d = "\<lparr>dayOffset = 0, topExperience = None, slots = None\<rparr>"
  let ?r = "\<lparr>data = Some \<lparr>availability = Some [\<lparr>restaurantId = None, availabilityDays = Some [?d]\<rparr>]\<rparr>\<rparr>"
  have 1: "data \<lparr>data = None\<rparr> = None" by simp
  have 2: "\<exists>day. select_day0 (days_of ?r) = Some day \<and> (slots day = None \<or> slots day = Some [])"
    by (simp add: days_of_def select_day0_def)
  from extractSlots_empty[of "\<lparr>data = None\<rparr>" "''19:00''" "''2026-02-26''"] 1
  have a: "extractSlots \<lparr>data = None\<rparr> ''19:00'' ''2026-02-26'' = []" by blast
  from extractSlots_empty[of ?r "''19:00''" "''2026-02-26''"] 2
  have b: "extractSlots ?r ''19:00'' ''2026-02-26'' = []" by blast
  from a b show ?thesis by (rule conjI)
qed

subsection \<open>HarSource\<close>

lemma str_includes_iff: "str_includes s pat \<longleftrightarrow> (\<exists>u v. s = u @ pat @ v)"
proof (induction s)
  case Nil
  then show ?case by simp
next
  case (Cons c cs)
  have "(\<exists>u v. c # cs = u @ pat @ v) \<longleftrightarrow> prefix pat (c # cs) \<or> (\<exists>u v. cs = u @ pat @ v)"
  proof
    assume "\<exists>u v. c # cs = u @ pat @ v"
    then obtain u v where uv: "c # cs = u @ pat @ v" by blast
    show "prefix pat (c # cs) \<or> (\<exists>u v. cs = u @ pat @ v)"
    proof (cases u)
      case Nil
      with uv show ?thesis by (auto simp: prefix_def)
    next
      case (Cons a u')
      with uv show ?thesis by auto
    qed
  next
    assume "prefix pat (c # cs) \<or> (\<exists>u v. cs = u @ pat @ v)"
    then show "\<exists>u v. c # cs = u @ pat @ v"
    proof
      assume "prefix pat (c # cs)"
      then obtain v where "c # cs = pat @ v" by (auto simp: prefix_def)
      then have "c # cs = [] @ pat @ v" by simp
      then show ?thesis by blast
    next
      assume "\<exists>u v. cs = u @ pat @ v"
      then obtain u v where "cs = u @ pat @ v" by blast
      then have "c # cs = (c # u) @ pat @ v" by simp
      then show ?thesis by blast
    qed
  qed
  with Cons show ?case by simp
qed

lemma entry_matches_unfiltered:
  "entry_matches [] (Num 0) e \<longleftrightarrow>
     (\<exists>r. request e = Some r \<and> http_method r = Some ''POST'' \<and>
          (\<exists>u. url r = Some u \<and> str_includes u ''RestaurantsAvailability'') \<and>
          truthy_text (response_text e))"
  by (auto simp: entry_matches_def split: option.splits)

lemma truthy_text_iff: "truthy_text x \<longleftrightarrow> (\<exists>t. x = Some t \<and> t \<noteq> [])"
  by (cases x) auto

lemma entry_matches_split:
  "entry_matches filterDate filterParty e \<longleftrightarrow>
     entry_matches [] (Num 0) e \<and>
     (filterDate = [] \<or> \<not> truthy_text (request_text e) \<or>
        str_includes (the (request_text e)) (date_pattern filterDate)) \<and>
     (\<not> num_positive filterParty \<or> \<not> truthy_text (request_text e) \<or>
        str_includes (the (request_text e)) (party_pattern filterParty))"
  by (auto simp: entry_matches_def split: option.splits)

text \<open>
  C6, as amended. An entry that matches without filters passes the date filter exactly
  when its request body text is absent, is empty, or contains the pattern
  \<^verbatim>\<open>"date":"<filterDate>"\<close>, and passes the party filter exactly when the text is absent, is
  empty, or contains \<^verbatim>\<open>"partySize":<filterParty>\<close>; it matches when it passes both. To
  contain a pattern is to have it as a contiguous run. Of two such entries whose bodies are
  present and not empty, one containing the date pattern of 2026-02-26 and the other not,
  the filter selects only the first.
\<close>

theorem entry_matches_filter:
  "(entry_matches [] (Num 0) e \<longrightarrow>
     (entry_matches filterDate filterParty e \<longleftrightarrow>
        (filterDate = [] \<or> request_text e = None \<or> request_text e = Some [] \<or>
           (\<exists>t. request_text e = Some t \<and> str_includes t (date_pattern filterDate))) \<and>
        (\<not> num_positive filterParty \<or> request_text e = None \<or> request_text e = Some [] \<or>
           (\<exists>t. request_text e = Some t \<and> str_includes t (party_pattern filterParty))))) \<and>
   (str_includes s pat \<longleftrightarrow> (\<exists>u v. s = u @ pat @ v)) \<and>
   (entry_matches [] (Num 0) e1 \<and> entry_matches [] (Num 0) e2 \<and>
    request_text e1 = Some t1 \<and> str_includes t1 (date_pattern ''2026-02-26'') \<and>
    request_text e2 = Some t2 \<and> t2 \<noteq> [] \<and> \<not> str_includes t2 (date_pattern ''2026-02-26'') \<longrightarrow>
    filter (entry_matches ''2026-02-26'' (Num 0)) [e1, e2] = [e1])"
proof -
  have a: "entry_matches [] (Num 0) e \<longrightarrow>
     (entry_matches filterDate filterParty e \<longleftrightarrow>
        (filterDate = [] \<or> request_text e = None \<or> request_text e = Some [] \<or>
           (\<exists>t. request_text e = Some t \<and> str_includes t (date_pattern filterDate))) \<and>
        (\<not> num_positive filterParty \<or> request_text e = None \<or> request_text e = Some [] \<or>
           (\<exists>t. request_text e = Some t \<and> str_includes t (party_pattern filterParty))))"
    by (subst entry_matches_split) (cases "request_text e"; auto)
  have b: "str_includes s pat \<longleftrightarrow> (\<exists>u v. s = u @ pat @ v)"
    by (rule str_includes_iff)
  have c: "entry_matches [] (Num 0) e1 \<and> entry_matches [] (Num 0) e2 \<and>
    request_text e1 = Some t1 \<and> str_includes t1 (date_pattern ''2026-02-26'') \<and>
    request_text e2 = Some t2 \<and> t2 \<noteq> [] \<and> \<not> str_includes t2 (date_pattern ''2026-02-26'') \<longrightarrow>
    filter (entry_matches ''2026-02-26'' (Num 0)) [e1, e2] = [e1]"
  proof (intro impI, elim conjE)
    assume h: "entry_matches [] (Num 0) e1" "entry_matches [] (Num 0) e2"
      "request_text e1 = Some t1" "str_includes t1 (date_pattern ''2026-02-26'')"
      "request_text e2 = Some t2" "t2 \<noteq> []" "\<not> str_includes t2 (date_pattern ''2026-02-26'')"
    have m1: "entry_matches ''2026-02-26'' (Num 0) e1"
      using h(1,3,4) entry_matches_split[of "''2026-02-26''" "Num 0" e1] by simp
    have m2: "\<not> entry_matches ''2026-02-26'' (Num 0) e2"
      using h(5,6,7) entry_matches_split[of "''2026-02-26''" "Num 0" e2] by simp
    from m1 m2 show "filter (entry_matches ''2026-02-26'' (Num 0)) [e1, e2] = [e1]" by simp
  qed
  from a b c show ?thesis by blast
qed


lemma url_ok: "str_includes GQL_URL ''RestaurantsAvailability''"
  by code_simp

lemma har_entry_unfiltered: "entry_matches [] (Num 0) (har_entry body resText) \<longleftrightarrow> resText \<noteq> []"
  by (simp add: entry_matches_unfiltered har_entry_def url_ok response_text_def)

lemma request_text_har_entry: "request_text (har_entry body resText) = body"
  by (simp add: request_text_def har_entry_def split: option.splits)

lemma feb26_has_date: "str_includes body_feb26 (date_pattern ''2026-02-26'')"
  by code_simp

lemma mar01_lacks_date: "\<not> str_includes body_mar01 (date_pattern ''2026-02-26'')"
  by code_simp

lemma feb26_has_party: "str_includes body_feb26 (party_pattern (Num 4))"
  by code_simp

text \<open>
  C6 as stated fails: an entry without a request body matches without filters, its text
  contains nothing, and it passes the date filter and the party filter all the same; next
  to an entry whose body holds the date, both are selected.
\<close>

theorem entry_matches_filter_counterexample:
  "entry_matches [] (Num 0) (har_entry None ''{}'') \<and>
   request_text (har_entry None ''{}'') = None \<and>
   entry_matches ''2026-02-26'' (Num 0) (har_entry None ''{}'') \<and>
   entry_matches [] (Num 4) (har_entry None ''{}'') \<and>
   filter (entry_matches ''2026-02-26'' (Num 0)) [har_entry (Some body_feb26) ''{}'', har_entry None ''{}'']
     = [har_entry (Some body_feb26) ''{}'', har_entry None ''{}'']"
proof -
  have u: "entry_matches [] (Num 0) (har_entry None ''{}'')"
    by (simp add: har_entry_unfiltered)
  have r: "request_text (har_entry None ''{}'') = None"
    by (simp add: request_text_har_entry)
  have d: "entry_matches ''2026-02-26'' (Num 0) (har_entry None ''{}'')"
    using u r entry_matches_split[of "''2026-02-26''" "Num 0" "har_entry None ''{}''"] by simp
  have p: "entry_matches [] (Num 4) (har_entry None ''{}'')"
    using u r entry_matches_split[of "[]" "Num 4" "har_entry None ''{}''"] by simp
  have f: "entry_matches ''2026-02-26'' (Num 0) (har_entry (Some body_feb26) ''{}'')"
    using entry_matches_split[of "''2026-02-26''" "Num 0" "har_entry (Some body_feb26) ''{}''"]
    by (simp add: har_entry_unfiltered request_text_har_entry feb26_has_date)
  from u r d p f show ?thesis by simp
qed

theorem entry_matches_filter_witness:
  "entry_matches ''2026-02-26'' (Num 4) (har_entry (Some body_feb26) ''{}'') \<and>
   \<not> entry_matches ''2026-02-26'' (Num 0) (har_entry (Some body_mar01) ''{}'') \<and>
   filter (entry_matches ''2026-02-26'' (Num 0))
     [har_entry (Some body_feb26) ''{}'', har_entry (Some body_mar01) ''{}'']
     = [har_entry (Some body_feb26) ''{}'']"
proof -
  let ?e1 = "har_entry (Some body_feb26) ''{}''"
  let ?e2 = "har_entry (Some body_mar01) ''{}''"
  have ne: "body_mar01 \<noteq> []" "body_feb26 \<noteq> []" by (simp_all add: body_mar01_def body_feb26_def)
  note th1 = entry_matches_filter[of ?e1 "''2026-02-26''" "Num 4" "[]" "[]" ?e1 ?e2 body_feb26 body_mar01]
  note th2 = entry_matches_filter[of ?e2 "''2026-02-26''" "Num 0" "[]" "[]" ?e1 ?e2 body_feb26 body_mar01]
  have a: "entry_matches ''2026-02-26'' (Num 4) ?e1"
    using conjunct1[OF th1]
    by (simp add: har_entry_unfiltered request_text_har_entry feb26_has_date feb26_has_party)
  have b: "\<not> entry_matches ''2026-02-26'' (Num 0) ?e2"
    using conjunct1[OF th2] ne
    by (simp add: har_entry_unfiltered request_text_har_entry mar01_lacks_date)
  have c: "filter (entry_matches ''2026-02-26'' (Num 0)) [?e1, ?e2] = [?e1]"
    using conjunct2[OF conjunct2[OF th1]] ne
    by (simp add: har_entry_unfiltered request_text_har_entry feb26_has_date mar01_lacks_date)
  from a b c show ?thesis by simp
qed

lemma t1800: "offsetToTime ''18:00'' 0 = ''18:00''"
  by code_simp

text \<open>
  C5 on a log of two matching entries, read without filters: the request body of the
  first holds the time 18:00, the second entry has no request body. The response of the
  second entry is decoded from 18:00, the value the first left in the variable, where the
  claim says 19:00.
\<close>

theorem runHarMode_baseTime_carried_over:
  "runHarMode parse_time1800 parse_one_slot
     [har_entry (Some body_time1800) response_one_slot_text,
      har_entry None response_one_slot_text] [] (Num 0)
   = Inr [Printed [\<lparr>time = ''18:00'', type' = ''Standard''\<rparr>] (JStr ''date-unknown''),
          Printed [\<lparr>time = ''18:00'', type' = ''Standard''\<rparr>] (JStr ''date-unknown'')]"
proof -
  let ?e1 = "har_entry (Some body_time1800) response_one_slot_text"
  let ?e2 = "har_entry None response_one_slot_text"
  have ne: "response_one_slot_text \<noteq> []" "body_time1800 \<noteq> []"
    by (simp_all add: response_one_slot_text_def body_time1800_def)
  have m: "filter (entry_matches [] (Num 0)) [?e1, ?e2] = [?e1, ?e2]"
    using ne by (simp add: har_entry_unfiltered)
  have rt: "response_text ?e1 = Some response_one_slot_text" "response_text ?e2 = Some response_one_slot_text"
    by (simp_all add: response_text_def har_entry_def)
  have b1: "next_baseTime parse_time1800 ?e1 (JStr ''19:00'') = JStr ''18:00''"
    using ne by (simp add: next_baseTime_def request_text_har_entry parse_time1800_def)
  have b2: "next_baseTime parse_time1800 ?e2 (JStr ''18:00'') = JStr ''18:00''"
    by (simp add: next_baseTime_def request_text_har_entry)
  have d1: "requested_date parse_time1800 [] ?e1 = JStr []"
    using ne by (simp add: requested_date_def request_text_har_entry parse_time1800_def)
  have d2: "requested_date parse_time1800 [] ?e2 = JStr []"
    by (simp add: requested_date_def request_text_har_entry)
  have x: "extractSlots_unchecked response_one_slot (JStr ''18:00'') (JStr [])
             = Inr [\<lparr>time = ''18:00'', type' = ''Standard''\<rparr>]"
    by (simp add: extractSlots_unchecked_def extractSlots_def days_of_def select_day0_def
        response_one_slot_def t1800)
  show ?thesis
    unfolding runHarMode_def m
    using ne by (simp add: Let_def rt b1 b2 d1 d2 x parse_one_slot_def)
qed

subsection \<open>Live pipeline\<close>

lemma map_of_define_props_rev:
  "map_of (define_props obj new) = map_of obj ++ map_of (rev new)"
proof (induction new arbitrary: obj)
  case Nil
  then show ?case by (simp add: define_props_def)
next
  case (Cons p new)
  obtain k v where p: "p = (k, v)" by (cases p)
  have "map_of (define_props obj (p # new)) = map_of (define_props (AList.update k v obj) new)"
    by (simp add: define_props_def p)
  also have "\<dots> = map_of (AList.update k v obj) ++ map_of (rev new)"
    by (rule Cons.IH)
  also have "\<dots> = (map_of obj)(k \<mapsto> v) ++ map_of (rev new)"
    by (simp only: update_conv')
  also have "\<dots> = map_of obj ++ map_of (rev (p # new))"
    by (simp add: p map_add_def fun_eq_iff split: option.splits)
  finally show ?case .
qed

lemma map_of_rev_distinct: "distinct (map fst xs) \<Longrightarrow> map_of (rev xs) = map_of xs"
  by (rule map_of_inject_set[THEN iffD2]) (simp_all add: rev_map[symmetric])

lemma map_of_define_props:
  "distinct (map fst new) \<Longrightarrow> map_of (define_props obj new) = map_of obj ++ map_of new"
  by (simp add: map_of_define_props_rev map_of_rev_distinct)

lemma update_keeps_others:
  "filter (\<lambda>p. fst p \<noteq> k) (AList.update k v al) = filter (\<lambda>p. fst p \<noteq> k) al"
  by (induction al) auto

lemma map_of_new_variables:
  "map_of (new_variables existing date partySize) =
     map_of (spread existing) ++ map_of (requested_variables date partySize)"
  unfolding new_variables_def by (rule map_of_define_props) (simp add: requested_variables_def)


lemma captured_text_ne: "captured_text \<noteq> []"
  by (simp add: captured_text_def)

lemma parse_captured_text: "parse_captured captured_text = Some (JObj captured_props)"
  by (simp add: parse_captured_def)

lemma parse_captured_null: "parse_captured ''null'' = Some JNull"
proof -
  have "captured_text \<noteq> ''null''" by (simp add: captured_text_def)
  then show ?thesis by (auto simp: parse_captured_def)
qed



lemma mutate_body_object:
  "mutate_body (JObj props) date partySize =
     Inr (JObj (AList.update ''variables'' (JObj (new_variables (map_of props ''variables'') date partySize)) props),
          new_variables (map_of props ''variables'') date partySize)"
  by (simp add: mutate_body_def Let_def)

lemma mutate_body_vars:
  assumes "mutate_body parsed date partySize = Inr (body', vars')"
  shows "\<exists>existing. vars' = new_variables existing date partySize"
  using assms by (cases parsed) (auto simp: mutate_body_def Let_def)

lemma launched_start:
  assumes "launched env"
  shows "(case launch_failure env of
            None \<Rightarrow> None
          | Some msg \<Rightarrow>
              if str_includes msg ''Executable doesn't exist'' \<and> chrome_launch_ok env then None
              else Some msg) = None"
  using assms by (auto simp: launched_def split: option.splits)

lemma runLiveMode_launched:
  assumes "launched env"
  shows "runLiveMode JSON_parse JSON_stringify parse_response env pageUrl date partySize =
     (case capture_result env of
             CaptureFailed err \<Rightarrow> ([Close 283], Thrown err)
           | DeadlineUnhandled \<Rightarrow> ([], Unhandled Timeout)
           | Captured capturedBody capturedHeaders \<Rightarrow>
               if capturedBody = []
               then ([Close 288, ConsoleError ''Could not capture RestaurantsAvailability request.''],
                     ProcessExit 1)
               else (case JSON_parse capturedBody of
                       None \<Rightarrow>
                         ([Close 301, ConsoleError ''Invalid captured request body.''], ProcessExit 1)
                     | Some parsed \<Rightarrow>
                         (case mutate_body parsed date partySize of
                            Inl err \<Rightarrow> ([], Thrown err)
                          | Inr (body, vars) \<Rightarrow>
                              replay JSON_stringify parse_response env pageUrl date
                                capturedHeaders body vars)))"
  unfolding runLiveMode_def launched_start[OF assms] by simp

lemma runLiveMode_object:
  assumes "launched env" "capture_result env = Captured capturedBody capturedHeaders"
    "capturedBody \<noteq> []" "JSON_parse capturedBody = Some (JObj props)"
  shows "runLiveMode JSON_parse JSON_stringify parse_response env pageUrl date partySize =
           replay JSON_stringify parse_response env pageUrl date capturedHeaders
             (JObj (AList.update ''variables'' (JObj (new_variables (map_of props ''variables'') date partySize)) props))
             (new_variables (map_of props ''variables'') date partySize)"
  using assms(2-4) by (simp add: runLiveMode_launched[OF assms(1)] mutate_body_object)

lemma replay_closes_once:
  "\<exists>l. closes (fst (replay JSON_stringify parse_response env pageUrl date capturedHeaders body vars)) = [l] \<and>
       l \<in> set [323, 339, 349, 357]"
  by (auto simp: replay_def Let_def split: post_outcome.splits option.splits sum.splits)

lemma replay_http_failure:
  assumes "page_open env" "post_result env = Responded False status resText"
  shows "closes (fst (replay JSON_stringify parse_response env pageUrl date capturedHeaders body vars)) = [339] \<and>
         snd (replay JSON_stringify parse_response env pageUrl date capturedHeaders body vars) = ProcessExit 1"
  using assms by (simp add: replay_def Let_def)

lemma replay_malformed_response:
  assumes "page_open env" "post_result env = Responded True status resText" "parse_response resText = None"
  shows "closes (fst (replay JSON_stringify parse_response env pageUrl date capturedHeaders body vars)) = [349] \<and>
         snd (replay JSON_stringify parse_response env pageUrl date capturedHeaders body vars) = ProcessExit 1"
  using assms by (simp add: replay_def Let_def)

lemma replay_returned:
  assumes "snd (replay JSON_stringify parse_response env pageUrl date capturedHeaders body vars) = Returned"
  shows "closes (fst (replay JSON_stringify parse_response env pageUrl date capturedHeaders body vars)) = [357] \<and>
         last (fst (replay JSON_stringify parse_response env pageUrl date capturedHeaders body vars)) = Close 357"
  using assms
  by (auto simp: replay_def Let_def split: post_outcome.splits option.splits sum.splits if_splits)

lemma replay_thrown:
  assumes "snd (replay JSON_stringify parse_response env pageUrl date capturedHeaders body vars) = Thrown err"
  shows "closes (fst (replay JSON_stringify parse_response env pageUrl date capturedHeaders body vars)) = [357] \<and>
         last (fst (replay JSON_stringify parse_response env pageUrl date capturedHeaders body vars)) = Close 357"
  using assms
  by (auto simp: replay_def Let_def split: post_outcome.splits option.splits sum.splits if_splits)

lemma replay_post_failed:
  assumes "page_open env" "post_result env = PostFailed err"
  shows "closes (fst (replay JSON_stringify parse_response env pageUrl date capturedHeaders body vars)) = [357] \<and>
         last (fst (replay JSON_stringify parse_response env pageUrl date capturedHeaders body vars)) = Close 357 \<and>
         snd (replay JSON_stringify parse_response env pageUrl date capturedHeaders body vars) = Thrown err"
  using assms by (simp add: replay_def Let_def)

lemma replay_no_page:
  assumes "\<not> page_open env"
  shows "replay JSON_stringify parse_response env pageUrl date capturedHeaders body vars =
           ([ConsoleError ''No page in context.'', Close 323], ProcessExit 1)"
  using assms by (simp add: replay_def)

lemma replay_posts:
  assumes "page_open env"
  shows "\<exists>rest. fst (replay JSON_stringify parse_response env pageUrl date capturedHeaders body vars) =
           Post GQL_URL (JSON_stringify body)
             (define_props capturedHeaders
                [(''Content-Type'', ''application/json''),
                 (''origin'', ''https://www.opentable.com''),
                 (''referer'', pageUrl)]) # rest"
  using assms
  by (auto simp: replay_def Let_def split: post_outcome.splits option.splits sum.splits)


lemma live_run_fields:
  "launch_failure (live_run capturedBody outcome) = None"
  "capture_result (live_run capturedBody outcome) = Captured capturedBody [(''content-type'', ''application/json'')]"
  "page_open (live_run capturedBody outcome) = True"
  "post_result (live_run capturedBody outcome) = outcome"
  "launched (live_run capturedBody outcome)"
  by (simp_all add: live_run_def launched_def capture_result_def)

text \<open>
  C4, as amended. An object literal with a spread merges: on a list of new properties
  without repeated keys, a new key overrides the existing one of the same name and every
  other existing property keeps its value. For a captured body that parses to an object,
  the mutation completes; its \<open>variables\<close> are the existing ones merged with the requested
  ones; the body that is serialised holds these \<open>variables\<close>, the captured
  \<open>operationName\<close> and the captured \<open>extensions\<close> (so the persisted query with its version
  and hash), and every property other than \<open>variables\<close> unchanged and in its place; and
  this body, serialised, is what the run posts.
\<close>

theorem mutation_merges_variables:
  "(distinct (map fst new) \<longrightarrow> map_of (define_props obj new) = map_of obj ++ map_of new) \<and>
   (\<exists>props' vars'.
      mutate_body (JObj props) date partySize = Inr (JObj props', vars') \<and>
      map_of vars' =
        map_of (spread (map_of props ''variables'')) ++ map_of (requested_variables date partySize) \<and>
      map_of props' ''variables'' = Some (JObj vars') \<and>
      map_of props' ''operationName'' = map_of props ''operationName'' \<and>
      map_of props' ''extensions'' = map_of props ''extensions'' \<and>
      filter (\<lambda>p. fst p \<noteq> ''variables'') props' = filter (\<lambda>p. fst p \<noteq> ''variables'') props \<and>
      (launched env \<and> capture_result env = Captured capturedBody capturedHeaders \<and>
       capturedBody \<noteq> [] \<and> JSON_parse capturedBody = Some (JObj props) \<and> page_open env \<longrightarrow>
       (\<exists>rest.
          fst (runLiveMode JSON_parse JSON_stringify parse_response env pageUrl date partySize) =
            Post GQL_URL (JSON_stringify (JObj props'))
              (define_props capturedHeaders
                 [(''Content-Type'', ''application/json''),
                  (''origin'', ''https://www.opentable.com''),
                  (''referer'', pageUrl)]) # rest)))"
proof -
  let ?vars = "new_variables (map_of props ''variables'') date partySize"
  let ?props = "AList.update ''variables'' (JObj ?vars) props"
  have 1: "distinct (map fst new) \<longrightarrow> map_of (define_props obj new) = map_of obj ++ map_of new"
    by (simp add: map_of_define_props)
  have 2: "mutate_body (JObj props) date partySize = Inr (JObj ?props, ?vars)"
    by (rule mutate_body_object)
  have 3: "map_of ?vars =
        map_of (spread (map_of props ''variables'')) ++ map_of (requested_variables date partySize)"
    by (rule map_of_new_variables)
  have 4: "map_of ?props ''variables'' = Some (JObj ?vars)"
    "map_of ?props ''operationName'' = map_of props ''operationName''"
    "map_of ?props ''extensions'' = map_of props ''extensions''"
    by (simp_all add: update_conv')
  have 5: "filter (\<lambda>p. fst p \<noteq> ''variables'') ?props = filter (\<lambda>p. fst p \<noteq> ''variables'') props"
    by (rule update_keeps_others)
  have 6: "\<exists>rest.
          fst (runLiveMode JSON_parse JSON_stringify parse_response env pageUrl date partySize) =
            Post GQL_URL (JSON_stringify (JObj ?props))
              (define_props capturedHeaders
                 [(''Content-Type'', ''application/json''),
                  (''origin'', ''https://www.opentable.com''),
                  (''referer'', pageUrl)]) # rest"
    if "launched env" "capture_result env = Captured capturedBody capturedHeaders"
       "capturedBody \<noteq> []" "JSON_parse capturedBody = Some (JObj props)" "page_open env"
  proof -
    have r: "runLiveMode JSON_parse JSON_stringify parse_response env pageUrl date partySize =
           replay JSON_stringify parse_response env pageUrl date capturedHeaders (JObj ?props) ?vars"
      by (rule runLiveMode_object) (fact that)+
    show ?thesis unfolding r by (rule replay_posts[OF that(5)])
  qed
  from 2 3 4 5 6 have "\<exists>props' vars'.
      mutate_body (JObj props) date partySize = Inr (JObj props', vars') \<and>
      map_of vars' =
        map_of (spread (map_of props ''variables'')) ++ map_of (requested_variables date partySize) \<and>
      map_of props' ''variables'' = Some (JObj vars') \<and>
      map_of props' ''operationName'' = map_of props ''operationName'' \<and>
      map_of props' ''extensions'' = map_of props ''extensions'' \<and>
      filter (\<lambda>p. fst p \<noteq> ''variables'') props' = filter (\<lambda>p. fst p \<noteq> ''variables'') props \<and>
      (launched env \<and> capture_result env = Captured capturedBody capturedHeaders \<and>
       capturedBody \<noteq> [] \<and> JSON_parse capturedBody = Some (JObj props) \<and> page_open env \<longrightarrow>
       (\<exists>rest.
          fst (runLiveMode JSON_parse JSON_stringify parse_response env pageUrl date partySize) =
            Post GQL_URL (JSON_stringify (JObj props'))
              (define_props capturedHeaders
                 [(''Content-Type'', ''application/json''),
                  (''origin'', ''https://www.opentable.com''),
                  (''referer'', pageUrl)]) # rest))"
    by blast
  with 1 show ?thesis by (rule conjI)
qed

text \<open>
  C4 as stated fails on a captured body that parses as JSON to a value that is no object:
  on the text \<open>null\<close> the mutation raises \<open>TypeError\<close>, nothing is merged or serialised, and
  the run ends with that error before any request is posted.
\<close>

theorem mutation_merges_variables_counterexample:
  "parse_captured ''null'' = Some JNull \<and>
   mutate_body JNull ''2026-02-26'' (Num 4) = Inl TypeError \<and>
   runLiveMode parse_captured stringify_plain parse_one_slot
     (live_run ''null'' (Responded True 200 response_one_slot_text))
     ''https://www.opentable.com/cascal'' ''2026-02-26'' (Num 4)
   = ([], Thrown TypeError)"
proof -
  have l: "launched (live_run ''null'' (Responded True 200 response_one_slot_text))"
    by (simp add: launched_def live_run_def)
  have m: "mutate_body JNull ''2026-02-26'' (Num 4) = Inl TypeError"
    by (simp add: mutate_body_def)
  show ?thesis
    by (simp add: runLiveMode_launched[OF l] parse_captured_null m live_run_fields)
qed


theorem mutation_merges_variables_witness:
  "\<exists>props' vars'.
     mutate_body (JObj captured_props) ''2026-02-26'' (Num 4) = Inr (JObj props', vars') \<and>
     map_of vars' ''date'' = Some (JStr ''2026-02-26'') \<and>
     map_of vars' ''partySize'' = Some (JNum (Num 4)) \<and>
     map_of vars' ''time'' = Some (JStr ''19:00'') \<and>
     map_of vars' ''restaurantIds'' = Some (JArr [JNum (Num 1234)]) \<and>
     map_of props' ''operationName'' = Some (JStr ''RestaurantsAvailability'') \<and>
     map_of props' ''extensions'' = map_of captured_props ''extensions'' \<and>
     hd (fst (runLiveMode parse_captured stringify_plain parse_one_slot
               (live_run captured_text (Responded True 200 response_one_slot_text))
               ''https://www.opentable.com/cascal'' ''2026-02-26'' (Num 4)))
       = Post GQL_URL (stringify_plain (JObj props'))
           [(''content-type'', ''application/json''), (''Content-Type'', ''application/json''),
            (''origin'', ''https://www.opentable.com''), (''referer'', ''https://www.opentable.com/cascal'')]"
proof -
  let ?env = "live_run captured_text (Responded True 200 response_one_slot_text)"
  have d: "distinct (map fst ([] :: (string \<times> jsval) list))" by simp
  from conjunct2[OF mutation_merges_variables[where props = captured_props and date = "''2026-02-26''"
      and partySize = "Num 4" and env = ?env and capturedBody = captured_text
      and capturedHeaders = "[(''content-type'', ''application/json'')]"
      and JSON_parse = parse_captured and JSON_stringify = stringify_plain
      and parse_response = parse_one_slot and pageUrl = "''https://www.opentable.com/cascal''"
      and new = "[] :: (string \<times> jsval) list" and obj = "[]"]]
  obtain props' vars' rest where
    m: "mutate_body (JObj captured_props) ''2026-02-26'' (Num 4) = Inr (JObj props', vars')" and
    v: "map_of vars' =
        map_of (spread (map_of captured_props ''variables'')) ++ map_of (requested_variables ''2026-02-26'' (Num 4))" and
    o: "map_of props' ''operationName'' = map_of captured_props ''operationName''" and
    x: "map_of props' ''extensions'' = map_of captured_props ''extensions''" and
    p: "fst (runLiveMode parse_captured stringify_plain parse_one_slot ?env
               ''https://www.opentable.com/cascal'' ''2026-02-26'' (Num 4)) =
            Post GQL_URL (stringify_plain (JObj props'))
              (define_props [(''content-type'', ''application/json'')]
                 [(''Content-Type'', ''application/json''),
                  (''origin'', ''https://www.opentable.com''),
                  (''referer'', ''https://www.opentable.com/cascal'')]) # rest"
    using live_run_fields captured_text_ne parse_captured_text by auto
  have vs: "map_of vars' ''date'' = Some (JStr ''2026-02-26'')"
    "map_of vars' ''partySize'' = Some (JNum (Num 4))"
    "map_of vars' ''time'' = Some (JStr ''19:00'')"
    "map_of vars' ''restaurantIds'' = Some (JArr [JNum (Num 1234)])"
    unfolding v by (simp_all add: captured_props_def requested_variables_def)
  have os: "map_of props' ''operationName'' = Some (JStr ''RestaurantsAvailability'')"
    unfolding o by (simp add: captured_props_def)
  have hs: "define_props [(''content-type'', ''application/json'')]
                 [(''Content-Type'', ''application/json''),
                  (''origin'', ''https://www.opentable.com''),
                  (''referer'', ''https://www.opentable.com/cascal'')]
            = [(''content-type'', ''application/json''), (''Content-Type'', ''application/json''),
               (''origin'', ''https://www.opentable.com''), (''referer'', ''https://www.opentable.com/cascal'')]"
    by (simp add: define_props_def)
  from m vs os x p hs show ?thesis by auto
qed

text \<open>
  C10, as amended. For every captured body that parses to an object, whatever it held,
  the mutation completes, the new \<open>variables\<close> are the \<open>variables\<close> of the body that is
  serialised, and they carry \<open>forwardMinutes = 295\<close>, \<open>backwardMinutes = 1140\<close>,
  \<open>forwardTimeslots = 20\<close> and \<open>backwardTimeslots = 76\<close>. On any parsed value on which the
  mutation completes, the new \<open>variables\<close> carry these four constants.
\<close>

theorem mutation_sets_window_constants:
  "(\<exists>props' vars'.
      mutate_body (JObj props) date partySize = Inr (JObj props', vars') \<and>
      map_of props' ''variables'' = Some (JObj vars') \<and>
      map_of vars' ''forwardMinutes'' = Some (JNum (Num 295)) \<and>
      map_of vars' ''backwardMinutes'' = Some (JNum (Num 1140)) \<and>
      map_of vars' ''forwardTimeslots'' = Some (JNum (Num 20)) \<and>
      map_of vars' ''backwardTimeslots'' = Some (JNum (Num 76))) \<and>
   (mutate_body parsed date partySize = Inr (body'', vars'') \<longrightarrow>
      map_of vars'' ''forwardMinutes'' = Some (JNum (Num 295)) \<and>
      map_of vars'' ''backwardMinutes'' = Some (JNum (Num 1140)) \<and>
      map_of vars'' ''forwardTimeslots'' = Some (JNum (Num 20)) \<and>
      map_of vars'' ''backwardTimeslots'' = Some (JNum (Num 76)))"
proof -
  have c: "map_of (new_variables existing date partySize) ''forwardMinutes'' = Some (JNum (Num 295)) \<and>
      map_of (new_variables existing date partySize) ''backwardMinutes'' = Some (JNum (Num 1140)) \<and>
      map_of (new_variables existing date partySize) ''forwardTimeslots'' = Some (JNum (Num 20)) \<and>
      map_of (new_variables existing date partySize) ''backwardTimeslots'' = Some (JNum (Num 76))"
    for existing
    unfolding map_of_new_variables by (simp add: requested_variables_def)
  let ?vars = "new_variables (map_of props ''variables'') date partySize"
  let ?props = "AList.update ''variables'' (JObj ?vars) props"
  have m: "mutate_body (JObj props) date partySize = Inr (JObj ?props, ?vars)"
    by (rule mutate_body_object)
  have v: "map_of ?props ''variables'' = Some (JObj ?vars)"
    by (simp add: update_conv')
  from m v c[of "map_of props ''variables''"]
  have 1: "\<exists>props' vars'.
      mutate_body (JObj props) date partySize = Inr (JObj props', vars') \<and>
      map_of props' ''variables'' = Some (JObj vars') \<and>
      map_of vars' ''forwardMinutes'' = Some (JNum (Num 295)) \<and>
      map_of vars' ''backwardMinutes'' = Some (JNum (Num 1140)) \<and>
      map_of vars' ''forwardTimeslots'' = Some (JNum (Num 20)) \<and>
      map_of vars' ''backwardTimeslots'' = Some (JNum (Num 76))"
    by blast
  have 2: "mutate_body parsed date partySize = Inr (body'', vars'') \<longrightarrow>
      map_of vars'' ''forwardMinutes'' = Some (JNum (Num 295)) \<and>
      map_of vars'' ''backwardMinutes'' = Some (JNum (Num 1140)) \<and>
      map_of vars'' ''forwardTimeslots'' = Some (JNum (Num 20)) \<and>
      map_of vars'' ''backwardTimeslots'' = Some (JNum (Num 76))"
    using mutate_body_vars[of parsed date partySize body'' vars''] c by blast
  from 1 2 show ?thesis by (rule conjI)
qed

text \<open>
  C10 as stated, for every captured body, fails on a body that parses as JSON to a value
  that is no object: on \<open>null\<close> and on a number the mutation raises \<open>TypeError\<close>, no
  variable is written, and a run that captured the text \<open>null\<close> posts nothing.
\<close>

theorem mutation_sets_window_constants_counterexample:
  "parse_captured ''null'' = Some JNull \<and>
   mutate_body JNull ''2026-02-26'' (Num 4) = Inl TypeError \<and>
   mutate_body (JNum (Num 5)) ''2026-02-26'' (Num 4) = Inl TypeError \<and>
   fst (runLiveMode parse_captured stringify_plain parse_one_slot
          (live_run ''null'' (Responded True 200 response_one_slot_text))
          ''https://www.opentable.com/cascal'' ''2026-02-26'' (Num 4)) = []"
proof -
  have l: "launched (live_run ''null'' (Responded True 200 response_one_slot_text))"
    by (rule live_run_fields(5))
  have m: "mutate_body JNull ''2026-02-26'' (Num 4) = Inl TypeError"
    "mutate_body (JNum (Num 5)) ''2026-02-26'' (Num 4) = Inl TypeError"
    by (simp_all add: mutate_body_def)
  show ?thesis
    by (simp add: runLiveMode_launched[OF l] parse_captured_null m live_run_fields)
qed

theorem mutation_sets_window_constants_witness:
  "map_of captured_props ''variables'' =
     Some (JObj [(''restaurantIds'', JArr [JNum (Num 1234)]),
                 (''date'', JStr ''2026-02-20''),
                 (''partySize'', JNum (Num 2)),
                 (''time'', JStr ''19:00''),
                 (''forwardMinutes'', JNum (Num 150)),
                 (''backwardMinutes'', JNum (Num 150))]) \<and>
   (\<exists>body' vars'.
      mutate_body (JObj captured_props) ''2026-02-26'' (Num 4) = Inr (body', vars') \<and>
      map_of vars' ''forwardMinutes'' = Some (JNum (Num 295)) \<and>
      map_of vars' ''backwardMinutes'' = Some (JNum (Num 1140)) \<and>
      map_of vars' ''forwardTimeslots'' = Some (JNum (Num 20)) \<and>
      map_of vars' ''backwardTimeslots'' = Some (JNum (Num 76)))"
proof -
  have a: "map_of captured_props ''variables'' =
     Some (JObj [(''restaurantIds'', JArr [JNum (Num 1234)]),
                 (''date'', JStr ''2026-02-20''),
                 (''partySize'', JNum (Num 2)),
                 (''time'', JStr ''19:00''),
                 (''forwardMinutes'', JNum (Num 150)),
                 (''backwardMinutes'', JNum (Num 150))])"
    by (simp add: captured_props_def)
  obtain body' vars' where
    m: "mutate_body (JObj captured_props) ''2026-02-26'' (Num 4) = Inr (body', vars')"
    by (simp add: mutate_body_object)
  from conjunct2[OF mutation_sets_window_constants[where parsed = "JObj captured_props"
      and date = "''2026-02-26''" and partySize = "Num 4" and body'' = body' and vars'' = vars'
      and props = captured_props]] m
  have "map_of vars' ''forwardMinutes'' = Some (JNum (Num 295)) \<and>
      map_of vars' ''backwardMinutes'' = Some (JNum (Num 1140)) \<and>
      map_of vars' ''forwardTimeslots'' = Some (JNum (Num 20)) \<and>
      map_of vars' ''backwardTimeslots'' = Some (JNum (Num 76))"
    by blast
  with a m show ?thesis by blast
qed

text \<open>
  The mutation stands between the two \<open>try\<close> blocks: when it raises, the error propagates
  with the browser still open.
\<close>

lemma runLiveMode_mutation_raises:
  assumes "launched env" "mutation_raises JSON_parse env date partySize"
  shows "\<exists>err. runLiveMode JSON_parse JSON_stringify parse_response env pageUrl date partySize
           = ([], Thrown err)"
  using assms(2)
  by (auto simp: runLiveMode_launched[OF assms(1)] mutation_raises_def
      split: capture_outcome.splits option.splits sum.splits)

text \<open>
  The deadline passing while the navigation is still pending: the rejection has no
  handler, and the process ends with the browser still open.
\<close>

lemma runLiveMode_unhandled:
  assumes "launched env" "setup_failure env = None" "request_before_deadline env = None"
    "\<not> navigation_settled_first env"
  shows "runLiveMode JSON_parse JSON_stringify parse_response env pageUrl date partySize
           = ([], Unhandled Timeout)"
  using assms(2-4) by (simp add: runLiveMode_launched[OF assms(1)] capture_result_def)

lemma runLiveMode_replayed:
  assumes "launched env" "capture_result env = Captured capturedBody capturedHeaders"
    "\<not> mutation_raises JSON_parse env date partySize"
    "snd (runLiveMode JSON_parse JSON_stringify parse_response env pageUrl date partySize) = Thrown err"
  shows "\<exists>body vars.
           runLiveMode JSON_parse JSON_stringify parse_response env pageUrl date partySize =
             replay JSON_stringify parse_response env pageUrl date capturedHeaders body vars"
proof (cases "capturedBody = []")
  case True
  with assms(2,4) show ?thesis by (simp add: runLiveMode_launched[OF assms(1)])
next
  case False
  show ?thesis
  proof (cases "JSON_parse capturedBody")
    case None
    with assms(2,4) False show ?thesis by (simp add: runLiveMode_launched[OF assms(1)])
  next
    case (Some parsed)
    with assms(2,3) False obtain body vars where
      m: "mutate_body parsed date partySize = Inr (body, vars)"
      by (cases "mutate_body parsed date partySize") (auto simp: mutation_raises_def)
    have "runLiveMode JSON_parse JSON_stringify parse_response env pageUrl date partySize =
               replay JSON_stringify parse_response env pageUrl date capturedHeaders body vars"
      using assms(2) False Some m by (simp add: runLiveMode_launched[OF assms(1)])
    then show ?thesis by blast
  qed
qed

lemma runLiveMode_closes_once:
  assumes "launched env" "\<not> mutation_raises JSON_parse env date partySize"
    "capture_result env \<noteq> DeadlineUnhandled"
  shows "\<exists>l. closes (fst (runLiveMode JSON_parse JSON_stringify parse_response env pageUrl date partySize)) = [l] \<and>
             l \<in> set [283, 288, 301, 323, 339, 349, 357]"
proof (cases "capture_result env")
  case (CaptureFailed err)
  then show ?thesis by (simp add: runLiveMode_launched[OF assms(1)])
next
  case DeadlineUnhandled
  with assms(3) show ?thesis by simp
next
  case (Captured capturedBody capturedHeaders)
  show ?thesis
  proof (cases "capturedBody = []")
    case True
    with Captured show ?thesis by (simp add: runLiveMode_launched[OF assms(1)])
  next
    case False
    show ?thesis
    proof (cases "JSON_parse capturedBody")
      case None
      with Captured False show ?thesis by (simp add: runLiveMode_launched[OF assms(1)])
    next
      case (Some parsed)
      with assms(2) Captured False obtain body vars where
        m: "mutate_body parsed date partySize = Inr (body, vars)"
        by (cases "mutate_body parsed date partySize") (auto simp: mutation_raises_def)
      have r: "runLiveMode JSON_parse JSON_stringify parse_response env pageUrl date partySize =
                 replay JSON_stringify parse_response env pageUrl date capturedHeaders body vars"
        using Captured False Some m by (simp add: runLiveMode_launched[OF assms(1)])
      from replay_closes_once[of JSON_stringify parse_response env pageUrl date capturedHeaders body vars]
      show ?thesis unfolding r by auto
    qed
  qed
qed

lemma runLiveMode_returned:
  assumes "launched env"
    "snd (runLiveMode JSON_parse JSON_stringify parse_response env pageUrl date partySize) = Returned"
  shows "closes (fst (runLiveMode JSON_parse JSON_stringify parse_response env pageUrl date partySize)) = [357] \<and>
         last (fst (runLiveMode JSON_parse JSON_stringify parse_response env pageUrl date partySize)) = Close 357"
  using assms(2) replay_returned
  by (auto simp: runLiveMode_launched[OF assms(1)]
      split: capture_outcome.splits option.splits sum.splits if_splits prod.splits)

text \<open>
  C8, as amended. Once the browser is launched, each of the listed exits closes it
  exactly once before the run ends, each at a call of its own: an error while the page is
  set up and the deadline passing once the navigation has settled (the \<open>catch\<close> block,
  line 283), the captured body not parsing (line 301), no page left in the context
  (line 323), the replayed request answered with a failure status (line 339), the
  response not parsing (line 349), an exception raised by the replayed request or by any
  step of the last \<open>try\<close> block (the \<open>finally\<close> block, line 357), and the run returning
  (the \<open>finally\<close> block, line 357, as the last step). On every path on which the deadline
  does not pass during the navigation and the mutation does not raise, \<open>browser.close()\<close>
  is called exactly once, at one of seven lines.
\<close>

theorem live_browser_closed:
  assumes "launched env"
  shows
    "(setup_failure env = Some err \<longrightarrow>
        runLiveMode JSON_parse JSON_stringify parse_response env pageUrl date partySize
          = ([Close 283], Thrown err)) \<and>
     (setup_failure env = None \<and> request_before_deadline env = None \<and>
      navigation_settled_first env \<longrightarrow>
        runLiveMode JSON_parse JSON_stringify parse_response env pageUrl date partySize
          = ([Close 283], Thrown Timeout)) \<and>
     (capture_result env = CaptureFailed err \<longrightarrow>
        runLiveMode JSON_parse JSON_stringify parse_response env pageUrl date partySize
          = ([Close 283], Thrown err)) \<and>
     (capture_result env = Captured capturedBody capturedHeaders \<and> capturedBody \<noteq> [] \<and>
      JSON_parse capturedBody = None \<longrightarrow>
        runLiveMode JSON_parse JSON_stringify parse_response env pageUrl date partySize
          = ([Close 301, ConsoleError ''Invalid captured request body.''], ProcessExit 1)) \<and>
     (capture_result env = Captured capturedBody capturedHeaders \<and> capturedBody \<noteq> [] \<and>
      JSON_parse capturedBody = Some (JObj props) \<and> \<not> page_open env \<longrightarrow>
        runLiveMode JSON_parse JSON_stringify parse_response env pageUrl date partySize
          = ([ConsoleError ''No page in context.'', Close 323], ProcessExit 1)) \<and>
     (capture_result env = Captured capturedBody capturedHeaders \<and> capturedBody \<noteq> [] \<and>
      JSON_parse capturedBody = Some (JObj props) \<and> page_open env \<and>
      post_result env = PostFailed err \<longrightarrow>
        closes (fst (runLiveMode JSON_parse JSON_stringify parse_response env pageUrl date partySize)) = [357] \<and>
        last (fst (runLiveMode JSON_parse JSON_stringify parse_response env pageUrl date partySize)) = Close 357 \<and>
        snd (runLiveMode JSON_parse JSON_stringify parse_response env pageUrl date partySize) = Thrown err) \<and>
     (capture_result env = Captured capturedBody capturedHeaders \<and> capturedBody \<noteq> [] \<and>
      JSON_parse capturedBody = Some (JObj props) \<and> page_open env \<and>
      post_result env = Responded False status resText \<longrightarrow>
        closes (fst (runLiveMode JSON_parse JSON_stringify parse_response env pageUrl date partySize)) = [339] \<and>
        snd (runLiveMode JSON_parse JSON_stringify parse_response env pageUrl date partySize) = ProcessExit 1) \<and>
     (capture_result env = Captured capturedBody capturedHeaders \<and> capturedBody \<noteq> [] \<and>
      JSON_parse capturedBody = Some (JObj props) \<and> page_open env \<and>
      post_result env = Responded True status resText \<and> parse_response resText = None \<longrightarrow>
        closes (fst (runLiveMode JSON_parse JSON_stringify parse_response env pageUrl date partySize)) = [349] \<and>
        snd (runLiveMode JSON_parse JSON_stringify parse_response env pageUrl date partySize) = ProcessExit 1) \<and>
     (capture_result env = Captured capturedBody capturedHeaders \<and>
      \<not> mutation_raises JSON_parse env date partySize \<and>
      snd (runLiveMode JSON_parse JSON_stringify parse_response env pageUrl date partySize) = Thrown err \<longrightarrow>
        closes (fst (runLiveMode JSON_parse JSON_stringify parse_response env pageUrl date partySize)) = [357] \<and>
        last (fst (runLiveMode JSON_parse JSON_stringify parse_response env pageUrl date partySize)) = Close 357) \<and>
     (snd (runLiveMode JSON_parse JSON_stringify parse_response env pageUrl date partySize) = Returned \<longrightarrow>
        closes (fst (runLiveMode JSON_parse JSON_stringify parse_response env pageUrl date partySize)) = [357] \<and>
        last (fst (runLiveMode JSON_parse JSON_stringify parse_response env pageUrl date partySize)) = Close 357) \<and>
     (\<not> mutation_raises JSON_parse env date partySize \<and> capture_result env \<noteq> DeadlineUnhandled \<longrightarrow>
        (\<exists>l. closes (fst (runLiveMode JSON_parse JSON_stringify parse_response env pageUrl date partySize)) = [l] \<and>
             l \<in> set [283, 288, 301, 323, 339, 349, 357]))"
proof -
  let ?run = "runLiveMode JSON_parse JSON_stringify parse_response env pageUrl date partySize"
  have p0: "setup_failure env = Some err \<longrightarrow> ?run = ([Close 283], Thrown err)"
    by (simp add: runLiveMode_launched[OF assms] capture_result_def)
  have pt: "setup_failure env = None \<and> request_before_deadline env = None \<and>
      navigation_settled_first env \<longrightarrow> ?run = ([Close 283], Thrown Timeout)"
    by (simp add: runLiveMode_launched[OF assms] capture_result_def)
  have p1: "capture_result env = CaptureFailed err \<longrightarrow> ?run = ([Close 283], Thrown err)"
    by (simp add: runLiveMode_launched[OF assms])
  have p2: "capture_result env = Captured capturedBody capturedHeaders \<and> capturedBody \<noteq> [] \<and>
      JSON_parse capturedBody = None \<longrightarrow>
        ?run = ([Close 301, ConsoleError ''Invalid captured request body.''], ProcessExit 1)"
    by (simp add: runLiveMode_launched[OF assms])
  have obj: "?run = replay JSON_stringify parse_response env pageUrl date capturedHeaders
             (JObj (AList.update ''variables'' (JObj (new_variables (map_of props ''variables'') date partySize)) props))
             (new_variables (map_of props ''variables'') date partySize)"
    if "capture_result env = Captured capturedBody capturedHeaders" "capturedBody \<noteq> []"
       "JSON_parse capturedBody = Some (JObj props)"
    by (rule runLiveMode_object) (fact assms that)+
  have pn: "capture_result env = Captured capturedBody capturedHeaders \<and> capturedBody \<noteq> [] \<and>
      JSON_parse capturedBody = Some (JObj props) \<and> \<not> page_open env \<longrightarrow>
        ?run = ([ConsoleError ''No page in context.'', Close 323], ProcessExit 1)"
    using obj replay_no_page by simp
  have pf: "capture_result env = Captured capturedBody capturedHeaders \<and> capturedBody \<noteq> [] \<and>
      JSON_parse capturedBody = Some (JObj props) \<and> page_open env \<and>
      post_result env = PostFailed err \<longrightarrow>
        closes (fst ?run) = [357] \<and> last (fst ?run) = Close 357 \<and> snd ?run = Thrown err"
    using obj replay_post_failed by simp
  have p3: "capture_result env = Captured capturedBody capturedHeaders \<and> capturedBody \<noteq> [] \<and>
      JSON_parse capturedBody = Some (JObj props) \<and> page_open env \<and>
      post_result env = Responded False status resText \<longrightarrow>
        closes (fst ?run) = [339] \<and> snd ?run = ProcessExit 1"
    using obj replay_http_failure by simp
  have p4: "capture_result env = Captured capturedBody capturedHeaders \<and> capturedBody \<noteq> [] \<and>
      JSON_parse capturedBody = Some (JObj props) \<and> page_open env \<and>
      post_result env = Responded True status resText \<and> parse_response resText = None \<longrightarrow>
        closes (fst ?run) = [349] \<and> snd ?run = ProcessExit 1"
    using obj replay_malformed_response by simp
  have px: "capture_result env = Captured capturedBody capturedHeaders \<and>
      \<not> mutation_raises JSON_parse env date partySize \<and> snd ?run = Thrown err \<longrightarrow>
        closes (fst ?run) = [357] \<and> last (fst ?run) = Close 357"
  proof (intro impI, elim conjE)
    assume c: "capture_result env = Captured capturedBody capturedHeaders"
      and n: "\<not> mutation_raises JSON_parse env date partySize"
      and t: "snd ?run = Thrown err"
    from runLiveMode_replayed[OF assms c n t] obtain body vars where
      r: "?run = replay JSON_stringify parse_response env pageUrl date capturedHeaders body vars"
      by blast
    from t show "closes (fst ?run) = [357] \<and> last (fst ?run) = Close 357"
      unfolding r by (rule replay_thrown)
  qed
  have p5: "snd ?run = Returned \<longrightarrow> closes (fst ?run) = [357] \<and> last (fst ?run) = Close 357"
    using runLiveMode_returned[OF assms] by blast
  have p6: "\<not> mutation_raises JSON_parse env date partySize \<and> capture_result env \<noteq> DeadlineUnhandled \<longrightarrow>
        (\<exists>l. closes (fst ?run) = [l] \<and> l \<in> set [283, 288, 301, 323, 339, 349, 357])"
    using runLiveMode_closes_once[OF assms] by blast
  from p0 pt p1 p2 pn pf p3 p4 px p5 p6 show ?thesis by (intro conjI)
qed

lemma live_timeout_fields:
  "setup_failure live_timeout = None" "request_before_deadline live_timeout = None"
  "navigation_settled_first live_timeout" "launched live_timeout"
  by (simp_all add: live_timeout_def launched_def)

lemma live_timeout_navigating_fields:
  "setup_failure live_timeout_navigating = None"
  "request_before_deadline live_timeout_navigating = None"
  "\<not> navigation_settled_first live_timeout_navigating" "launched live_timeout_navigating"
  by (simp_all add: live_timeout_navigating_def launched_def)

lemma t1900: "offsetToTime ''19:00'' 0 = ''19:00''"
  by code_simp

lemma example_replay:
  "runLiveMode parse_captured stringify_plain parse_one_slot (live_run captured_text outcome)
     ''https://www.opentable.com/cascal'' ''2026-02-26'' (Num 4) =
   replay stringify_plain parse_one_slot (live_run captured_text outcome)
     ''https://www.opentable.com/cascal'' ''2026-02-26''
     [(''content-type'', ''application/json'')]
     (JObj (AList.update ''variables''
        (JObj (new_variables (map_of captured_props ''variables'') ''2026-02-26'' (Num 4))) captured_props))
     (new_variables (map_of captured_props ''variables'') ''2026-02-26'' (Num 4))"
  by (rule runLiveMode_object[where capturedBody = captured_text and props = captured_props])
     (simp_all add: live_run_fields captured_text_ne parse_captured_text)

lemma example_success_run:
  "runLiveMode parse_captured stringify_plain parse_one_slot
     (live_run captured_text (Responded True 200 response_one_slot_text))
     ''https://www.opentable.com/cascal'' ''2026-02-26'' (Num 4)
   = ([Post GQL_URL
         (stringify_plain (JObj (AList.update ''variables''
            (JObj (new_variables (map_of captured_props ''variables'') ''2026-02-26'' (Num 4))) captured_props)))
         (define_props [(''content-type'', ''application/json'')]
            [(''Content-Type'', ''application/json''),
             (''origin'', ''https://www.opentable.com''),
             (''referer'', ''https://www.opentable.com/cascal'')]),
       PrintResult [\<lparr>time = ''19:00'', type' = ''Standard''\<rparr>] ''2026-02-26'',
       Close 357], Returned)"
proof -
  have tm: "map_of (new_variables (map_of captured_props ''variables'') ''2026-02-26'' (Num 4)) ''time''
              = Some (JStr ''19:00'')"
    unfolding map_of_new_variables by (simp add: captured_props_def requested_variables_def)
  have x: "extractSlots_unchecked response_one_slot (JStr ''19:00'') ''2026-02-26''
             = Inr [\<lparr>time = ''19:00'', type' = ''Standard''\<rparr>]"
    by (simp add: extractSlots_unchecked_def extractSlots_def days_of_def select_day0_def
        response_one_slot_def t1900)
  show ?thesis
    unfolding example_replay
    by (simp add: replay_def live_run_fields parse_one_slot_def tm x Let_def)
qed

lemma example_http_failure_run:
  "runLiveMode parse_captured stringify_plain parse_one_slot
     (live_run captured_text (Responded False 500 ''Internal Server Error''))
     ''https://www.opentable.com/cascal'' ''2026-02-26'' (Num 4)
   = ([Post GQL_URL
         (stringify_plain (JObj (AList.update ''variables''
            (JObj (new_variables (map_of captured_props ''variables'') ''2026-02-26'' (Num 4))) captured_props)))
         (define_props [(''content-type'', ''application/json'')]
            [(''Content-Type'', ''application/json''),
             (''origin'', ''https://www.opentable.com''),
             (''referer'', ''https://www.opentable.com/cascal'')]),
       ConsoleError ''API request failed:'',
       Close 339], ProcessExit 1)"
  unfolding example_replay by (simp add: replay_def live_run_fields Let_def)

text \<open>
  C8 as stated fails twice. A capture timeout does not always close the browser: when
  the deadline passes while the navigation is still pending, the rejection has no handler
  and the process ends with no call of \<open>browser.close()\<close>. And there is no single cleanup
  point: the deadline after the navigation, a failure status and the success close the
  browser at three different lines; the exit after a failure status does not pass through
  the \<open>finally\<close> block.
\<close>

theorem live_browser_closed_counterexample:
  "launched live_timeout_navigating \<and>
   runLiveMode parse_captured stringify_plain parse_one_slot live_timeout_navigating
      ''https://www.opentable.com/cascal'' ''2026-02-26'' (Num 4) = ([], Unhandled Timeout) \<and>
   closes (fst (runLiveMode parse_captured stringify_plain parse_one_slot live_timeout
      ''https://www.opentable.com/cascal'' ''2026-02-26'' (Num 4))) = [283] \<and>
   closes (fst (runLiveMode parse_captured stringify_plain parse_one_slot
      (live_run captured_text (Responded False 500 ''Internal Server Error''))
      ''https://www.opentable.com/cascal'' ''2026-02-26'' (Num 4))) = [339] \<and>
   closes (fst (runLiveMode parse_captured stringify_plain parse_one_slot
      (live_run captured_text (Responded True 200 response_one_slot_text))
      ''https://www.opentable.com/cascal'' ''2026-02-26'' (Num 4))) = [357]"
  unfolding example_success_run example_http_failure_run
    runLiveMode_unhandled[OF live_timeout_navigating_fields(4) live_timeout_navigating_fields(1)
      live_timeout_navigating_fields(2) live_timeout_navigating_fields(3)]
  by (simp add: runLiveMode_launched[OF live_timeout_fields(4)] capture_result_def
      live_timeout_fields live_timeout_navigating_fields)

theorem live_browser_closed_witness:
  "launched live_timeout \<and>
   runLiveMode parse_captured stringify_plain parse_one_slot live_timeout
      ''https://www.opentable.com/cascal'' ''2026-02-26'' (Num 4) = ([Close 283], Thrown Timeout) \<and>
   launched (live_run captured_text (PostFailed (OtherError ''socket hang up''))) \<and>
   closes (fst (runLiveMode parse_captured stringify_plain parse_one_slot
      (live_run captured_text (PostFailed (OtherError ''socket hang up'')))
      ''https://www.opentable.com/cascal'' ''2026-02-26'' (Num 4))) = [357] \<and>
   snd (runLiveMode parse_captured stringify_plain parse_one_slot
      (live_run captured_text (PostFailed (OtherError ''socket hang up'')))
      ''https://www.opentable.com/cascal'' ''2026-02-26'' (Num 4)) = Thrown (OtherError ''socket hang up'') \<and>
   launched (live_run captured_text (Responded True 200 response_one_slot_text)) \<and>
   snd (runLiveMode parse_captured stringify_plain parse_one_slot
      (live_run captured_text (Responded True 200 response_one_slot_text))
      ''https://www.opentable.com/cascal'' ''2026-02-26'' (Num 4)) = Returned \<and>
   closes (fst (runLiveMode parse_captured stringify_plain parse_one_slot
      (live_run captured_text (Responded True 200 response_one_slot_text))
      ''https://www.opentable.com/cascal'' ''2026-02-26'' (Num 4))) = [357] \<and>
   last (fst (runLiveMode parse_captured stringify_plain parse_one_slot
      (live_run captured_text (Responded True 200 response_one_slot_text))
      ''https://www.opentable.com/cascal'' ''2026-02-26'' (Num 4))) = Close 357"
proof -
  let ?env = "live_run captured_text (Responded True 200 response_one_slot_text)"
  let ?envf = "live_run captured_text (PostFailed (OtherError ''socket hang up''))"
  have l1: "launched live_timeout" by (rule live_timeout_fields(4))
  have l2: "launched ?env" by (rule live_run_fields(5))
  have l3: "launched ?envf" by (rule live_run_fields(5))
  have ret: "snd (runLiveMode parse_captured stringify_plain parse_one_slot ?env
      ''https://www.opentable.com/cascal'' ''2026-02-26'' (Num 4)) = Returned"
    unfolding example_success_run by simp
  note th1 = live_browser_closed[OF l1, where JSON_parse = parse_captured
        and JSON_stringify = stringify_plain and parse_response = parse_one_slot
        and pageUrl = "''https://www.opentable.com/cascal''" and date = "''2026-02-26''"
        and partySize = "Num 4"]
  from th1[THEN conjunct2, THEN conjunct1] live_timeout_fields(1-3)
  have a: "runLiveMode parse_captured stringify_plain parse_one_slot live_timeout
      ''https://www.opentable.com/cascal'' ''2026-02-26'' (Num 4) = ([Close 283], Thrown Timeout)"
    by blast
  note th3 = live_browser_closed[OF l3, where JSON_parse = parse_captured
        and JSON_stringify = stringify_plain and parse_response = parse_one_slot
        and pageUrl = "''https://www.opentable.com/cascal''" and date = "''2026-02-26''"
        and partySize = "Num 4" and capturedBody = captured_text
        and capturedHeaders = "[(''content-type'', ''application/json'')]"
        and props = captured_props and err = "OtherError ''socket hang up''"]
  from th3[THEN conjunct2, THEN conjunct2, THEN conjunct2, THEN conjunct2, THEN conjunct2,
      THEN conjunct1]
    live_run_fields(2-4)[of captured_text "PostFailed (OtherError ''socket hang up'')"]
    captured_text_ne parse_captured_text
  have f: "closes (fst (runLiveMode parse_captured stringify_plain parse_one_slot ?envf
      ''https://www.opentable.com/cascal'' ''2026-02-26'' (Num 4))) = [357] \<and>
     snd (runLiveMode parse_captured stringify_plain parse_one_slot ?envf
      ''https://www.opentable.com/cascal'' ''2026-02-26'' (Num 4)) = Thrown (OtherError ''socket hang up'')"
    by blast
  note th = live_browser_closed[OF l2, where JSON_parse = parse_captured
        and JSON_stringify = stringify_plain and parse_response = parse_one_slot
        and pageUrl = "''https://www.opentable.com/cascal''" and date = "''2026-02-26''"
        and partySize = "Num 4"]
  from th[THEN conjunct2, THEN conjunct2, THEN conjunct2, THEN conjunct2, THEN conjunct2,
      THEN conjunct2, THEN conjunct2, THEN conjunct2, THEN conjunct2, THEN conjunct1] ret
  have b: "closes (fst (runLiveMode parse_captured stringify_plain parse_one_slot ?env
      ''https://www.opentable.com/cascal'' ''2026-02-26'' (Num 4))) = [357] \<and>
     last (fst (runLiveMode parse_captured stringify_plain parse_one_slot ?env
      ''https://www.opentable.com/cascal'' ''2026-02-26'' (Num 4))) = Close 357"
    by blast
  from l1 a l3 f l2 ret b show ?thesis by blast
qed

end
